theory Spec2Isabelle
  imports Main
begin

section \<open>JavaScript values, exceptions and the error class\<close>

text \<open>
  The values that flow through \<^verbatim>\<open>api-client.ts\<close>: request bodies of type \<^verbatim>\<open>unknown\<close>,
  parsed response payloads of type \<^verbatim>\<open>any\<close>. A string is a sequence of code units below
  256. Numbers are modelled by the integers; only the test against zero is used on them.
\<close>

datatype jsval =
    JUndefined
  | JNull
  | JBool bool
  | JNum int
  | JStr string
  | JArr "jsval list"
  | JObj "(string \<times> jsval) list"

text \<open>The conversion to a boolean that \<^verbatim>\<open>if (x)\<close>, \<^verbatim>\<open>x ? a : b\<close>, \<^verbatim>\<open>!x\<close> and \<^verbatim>\<open>x || y\<close> apply.\<close>

fun truthy :: "jsval \<Rightarrow> bool" where
  "truthy JUndefined = False"
| "truthy JNull = False"
| "truthy (JBool b) = b"
| "truthy (JNum n) = (n \<noteq> 0)"
| "truthy (JStr s) = (s \<noteq> [])"
| "truthy (JArr xs) = True"
| "truthy (JObj kvs) = True"

text \<open>
  \<^verbatim>\<open>class ApiError extends Error\<close> with \<^verbatim>\<open>code\<close>, \<^verbatim>\<open>message\<close> and \<^verbatim>\<open>status\<close>. The
  constructor receives whatever the response body held under these keys, so the two are
  kept as JavaScript values (the arguments as passed to the constructor).
\<close>

datatype ApiError = ApiError (code: jsval) (message: jsval) (status: nat)

text \<open>
  What a \<^verbatim>\<open>throw\<close> or a rejected promise carries: an \<^verbatim>\<open>ApiError\<close>, another instance of
  \<^verbatim>\<open>Error\<close> with its message, or a value that is no \<^verbatim>\<open>Error\<close> at all.
\<close>

datatype js_exn = ApiErr ApiError | JsError string | NonError

text \<open>
  Reading a property of \<^verbatim>\<open>null\<close> or \<^verbatim>\<open>undefined\<close> throws a \<^verbatim>\<open>TypeError\<close>; its text
  depends on the engine and is fixed here to one wording.
\<close>

definition null_property_message :: string where
  "null_property_message = ''Cannot read properties of null''"

text \<open>
  \<^verbatim>\<open>v.k\<close> for the keys the client reads (\<^verbatim>\<open>error\<close>, \<^verbatim>\<open>code\<close>, \<^verbatim>\<open>message\<close>): an object
  gives its entry or \<^verbatim>\<open>undefined\<close>, a primitive or an array has no such property.
\<close>

fun get_prop :: "jsval \<Rightarrow> string \<Rightarrow> js_exn + jsval" where
  "get_prop JUndefined k = Inl (JsError null_property_message)"
| "get_prop JNull k = Inl (JsError null_property_message)"
| "get_prop (JObj kvs) k = Inr (case map_of kvs k of Some v \<Rightarrow> v | None \<Rightarrow> JUndefined)"
| "get_prop (JBool b) k = Inr JUndefined"
| "get_prop (JNum n) k = Inr JUndefined"
| "get_prop (JStr s) k = Inr JUndefined"
| "get_prop (JArr xs) k = Inr JUndefined"

text \<open>\<^verbatim>\<open>x || d\<close>\<close>

definition or_else :: "jsval \<Rightarrow> jsval \<Rightarrow> jsval" where
  "or_else x d = (if truthy x then x else d)"

section \<open>The \<^verbatim>\<open>Headers\<close> class of the platform\<close>

text \<open>
  A header list keeps its entries in insertion order. Names match without regard to
  ASCII letter case; values are stripped of leading and trailing HTTP whitespace when
  they are stored; an invalid name or value makes the operation throw a \<^verbatim>\<open>TypeError\<close>.
\<close>

type_synonym header_list = "(string \<times> string) list"

definition lower_char :: "char \<Rightarrow> char" where
  "lower_char c =
     (case map_of (zip ''ABCDEFGHIJKLMNOPQRSTUVWXYZ'' ''abcdefghijklmnopqrstuvwxyz'') c of
        Some d \<Rightarrow> d
      | None \<Rightarrow> c)"

definition lower :: "string \<Rightarrow> string" where
  "lower s = map lower_char s"

definition same_name :: "string \<Rightarrow> string \<Rightarrow> bool" where
  "same_name a b = (lower a = lower b)"

definition http_whitespace :: "char \<Rightarrow> bool" where
  "http_whitespace c = (c \<in> {CHR 0x0A, CHR 0x0D, CHR 0x09, CHR 0x20})"

definition normalize_value :: "string \<Rightarrow> string" where
  "normalize_value v = rev (dropWhile http_whitespace (rev (dropWhile http_whitespace v)))"

definition token_char :: "char \<Rightarrow> bool" where
  "token_char c =
     (let n = (of_char c :: nat) in
        (48 \<le> n \<and> n \<le> 57) \<or> (65 \<le> n \<and> n \<le> 90) \<or> (97 \<le> n \<and> n \<le> 122) \<or>
        n \<in> {33, 35, 36, 37, 38, 39, 42, 43, 45, 46, 94, 95, 96, 124, 126})"

definition is_header_name :: "string \<Rightarrow> bool" where
  "is_header_name n = (n \<noteq> [] \<and> list_all token_char n)"

definition is_header_value :: "string \<Rightarrow> bool" where
  "is_header_value v =
     (list_all (\<lambda>c. c \<notin> {CHR 0x00, CHR 0x0A, CHR 0x0D}) v \<and>
      (v = [] \<or> (hd v \<notin> {CHR 0x09, CHR 0x20} \<and> last v \<notin> {CHR 0x09, CHR 0x20})))"

definition header_type_error :: js_exn where
  "header_type_error = JsError ''Invalid header''"

definition headers_contains :: "header_list \<Rightarrow> string \<Rightarrow> bool" where
  "headers_contains hs n = list_ex (\<lambda>(k, v). same_name k n) hs"

text \<open>Appending keeps the spelling of the first entry of the same name.\<close>

definition headers_append :: "header_list \<Rightarrow> string \<Rightarrow> string \<Rightarrow> js_exn + header_list" where
  "headers_append hs n v =
     (let v' = normalize_value v in
        if \<not> is_header_name n \<or> \<not> is_header_value v' then Inl header_type_error
        else Inr (hs @ [(case find (\<lambda>(k, _). same_name k n) hs of
                           Some (k, _) \<Rightarrow> k
                         | None \<Rightarrow> n, v')]))"

text \<open>\<^verbatim>\<open>new Headers(record)\<close>: every entry of the record is appended in turn.\<close>

fun headers_fill :: "(string \<times> string) list \<Rightarrow> header_list \<Rightarrow> js_exn + header_list" where
  "headers_fill [] hs = Inr hs"
| "headers_fill ((k, v) # kvs) hs =
     (case headers_append hs k v of
        Inl e \<Rightarrow> Inl e
      | Inr hs' \<Rightarrow> headers_fill kvs hs')"

definition new_Headers :: "(string \<times> string) list \<Rightarrow> js_exn + header_list" where
  "new_Headers init = headers_fill init []"

fun join_values :: "string list \<Rightarrow> string" where
  "join_values [] = []"
| "join_values [v] = v"
| "join_values (v # w # vs) = v @ '', '' @ join_values (w # vs)"

text \<open>\<^verbatim>\<open>headers.get(name)\<close>: \<^verbatim>\<open>null\<close> when absent, else all values of that name joined.\<close>

definition headers_get :: "header_list \<Rightarrow> string \<Rightarrow> string option" where
  "headers_get hs n =
     (let vs = map snd (filter (\<lambda>(k, v). same_name k n) hs) in
        if vs = [] then None else Some (join_values vs))"

text \<open>
  \<^verbatim>\<open>headers.set(name, value)\<close>: the first entry of that name takes the value and the
  others are removed; without one the header is appended.
\<close>

fun set_first :: "header_list \<Rightarrow> string \<Rightarrow> string \<Rightarrow> header_list" where
  "set_first [] n v = []"
| "set_first ((k, w) # hs) n v =
     (if same_name k n then (k, v) # filter (\<lambda>(k', _). \<not> same_name k' n) hs
      else (k, w) # set_first hs n v)"

definition headers_set :: "header_list \<Rightarrow> string \<Rightarrow> string \<Rightarrow> js_exn + header_list" where
  "headers_set hs n v =
     (let v' = normalize_value v in
        if \<not> is_header_name n \<or> \<not> is_header_value v' then Inl header_type_error
        else if headers_contains hs n then Inr (set_first hs n v')
        else Inr (hs @ [(n, v')]))"

section \<open>Plain objects and the spread\<close>

text \<open>
  An object is the list of its own enumerable properties in the order of their creation.
  In an object literal \<^verbatim>\<open>{ a: x, ...o }\<close> a key of \<^verbatim>\<open>o\<close> that is already present keeps
  its place and takes the new value, and a new key goes to the end.
\<close>

fun obj_set :: "(string \<times> 'v) list \<Rightarrow> string \<Rightarrow> 'v \<Rightarrow> (string \<times> 'v) list" where
  "obj_set [] k v = [(k, v)]"
| "obj_set ((k', w) # kvs) k v =
     (if k' = k then (k, v) # kvs else (k', w) # obj_set kvs k v)"

definition spread :: "(string \<times> 'v) list \<Rightarrow> (string \<times> 'v) list \<Rightarrow> (string \<times> 'v) list" where
  "spread base ext = fold (\<lambda>(k, v) obj. obj_set obj k v) ext base"

text \<open>
  Whoever lists the keys of an object (the spread, \<^verbatim>\<open>new Headers\<close>) gets the array
  indices first, in ascending order, and the other keys after them in the order of
  their creation. An array index is the decimal spelling of a number below
  \<open>2\<^sup>3\<^sup>2 - 1\<close>.
\<close>

definition digit_char :: "char \<Rightarrow> bool" where
  "digit_char c = (c \<in> set ''0123456789'')"

definition digit_value :: "char \<Rightarrow> nat" where
  "digit_value c =
     (case map_of (zip ''0123456789'' [0, 1, 2, 3, 4, 5, 6, 7, 8, 9]) c of
        Some n \<Rightarrow> n
      | None \<Rightarrow> 0)"

definition index_value :: "string \<Rightarrow> nat" where
  "index_value k = foldl (\<lambda>a c. 10 * a + digit_value c) 0 k"

definition is_array_index :: "string \<Rightarrow> bool" where
  "is_array_index k =
     (k \<noteq> [] \<and> list_all digit_char k \<and> (k = ''0'' \<or> hd k \<noteq> CHR ''0'') \<and>
      index_value k < 4294967295)"

definition property_order :: "(string \<times> 'v) list \<Rightarrow> (string \<times> 'v) list" where
  "property_order kvs =
     sort_key (\<lambda>(k, v). index_value k) (filter (\<lambda>(k, v). is_array_index k) kvs) @
     filter (\<lambda>(k, v). \<not> is_array_index k) kvs"

text \<open>The decimal spelling of a number: the key of an array element.\<close>

fun decimal :: "nat \<Rightarrow> string" where
  "decimal n =
     (if n < 10 then [''0123456789'' ! n]
      else decimal (n div 10) @ [''0123456789'' ! (n mod 10)])"

declare decimal.simps [simp del]

section \<open>Responses, request options and the collaborators\<close>

text \<open>
  A \<^verbatim>\<open>Response\<close>: its status and what \<^verbatim>\<open>await response.text()\<close> gives, the body text or
  the exception of a failed read. \<^verbatim>\<open>response.ok\<close> is the platform's test for a status
  from 200 to 299.
\<close>

record response =
  resp_status :: nat
  resp_text :: "js_exn + string"

definition ok :: "response \<Rightarrow> bool" where
  "ok r = (200 \<le> resp_status r \<and> resp_status r \<le> 299)"

text \<open>
  \<^verbatim>\<open>RequestInit.headers\<close> is a \<^verbatim>\<open>HeadersInit\<close>: a plain object from names to values, an
  array of name-value pairs, or a \<^verbatim>\<open>Headers\<close> object. All three are objects for the test
  of line 54. The spread copies own enumerable properties: the entries of a plain
  object; the pairs of an array under their indices (\<^verbatim>\<open>new Headers\<close> later turns a pair
  \<^verbatim>\<open>['k', 'v']\<close> into the string \<^verbatim>\<open>k,v\<close>); and nothing of a \<^verbatim>\<open>Headers\<close> object, whose
  entries are not properties.
\<close>

datatype HeadersInit =
    PlainObject "(string \<times> string) list"
  | PairArray "(string \<times> string) list"
  | HeadersObject header_list

fun own_entries :: "HeadersInit \<Rightarrow> (string \<times> string) list" where
  "own_entries (PlainObject kvs) = property_order kvs"
| "own_entries (PairArray ps) =
     map (\<lambda>(i, (k, v)). (decimal i, k @ '','' @ v)) (enumerate 0 ps)"
| "own_entries (HeadersObject hs) = []"

text \<open>
  \<^verbatim>\<open>RequestInit\<close> as the client uses it (\<open>http_method\<close> is its field \<^verbatim>\<open>method\<close>);
  \<^verbatim>\<open>None\<close> is an absent field.
\<close>

record RequestInit =
  http_method :: "string option"
  headers :: "HeadersInit option"
  body :: "string option"

text \<open>What \<^verbatim>\<open>fetch(url, { ...options, headers })\<close> receives.\<close>

record fetch_call =
  fetch_url :: string
  fetch_method :: "string option"
  fetch_headers :: header_list
  fetch_body :: "string option"

text \<open>
  The collaborators of one call of \<^verbatim>\<open>request\<close>:
  \<^item> \<^verbatim>\<open>JSON.parse\<close>, which returns a value or throws;
  \<^item> \<^verbatim>\<open>JSON.stringify\<close> on the values the client passes to it;
  \<^item> \<^verbatim>\<open>fetch\<close>: the answer to the \<open>n\<close>-th call of this request (counted from 0), a
    response or a rejection;
  \<^item> the base URL of the client;
  \<^item> \<^verbatim>\<open>useAuthStore.getState().accessToken\<close> when the request starts;
  \<^item> what \<^verbatim>\<open>await handle401Error()\<close> settles to for this request: the token, or the
    exception thrown. The coordinator that produces it is modelled below.
\<close>

record env =
  JSON_parse :: "string \<Rightarrow> js_exn + jsval"
  JSON_stringify :: "jsval \<Rightarrow> string"
  fetch :: "nat \<Rightarrow> fetch_call \<Rightarrow> js_exn + response"
  baseURL :: string
  accessToken :: "string option"
  awaited401 :: "js_exn + string"

section \<open>\<^verbatim>\<open>makeRequest\<close>\<close>

text \<open>Lines 52 to 59: the merged header set, or the exception of the \<^verbatim>\<open>Headers\<close> class.\<close>

definition makeRequest_headers :: "RequestInit \<Rightarrow> string \<Rightarrow> js_exn + header_list" where
  "makeRequest_headers options authToken =
     (case new_Headers
             (property_order
                (spread [(''Content-Type'', ''application/json'')]
                   (case headers options of Some h \<Rightarrow> own_entries h | None \<Rightarrow> []))) of
        Inl e \<Rightarrow> Inl e
      | Inr hs \<Rightarrow>
          if authToken \<noteq> [] \<and>
             (case headers_get hs ''Authorization'' of None \<Rightarrow> True | Some a \<Rightarrow> a = [])
          then headers_set hs ''Authorization'' (''Bearer '' @ authToken)
          else Inr hs)"

text \<open>
  \<^verbatim>\<open>makeRequest(authToken)\<close>, with the calls sent so far threaded through: the awaited
  result and the calls sent after it.
\<close>

definition makeRequest ::
  "env \<Rightarrow> fetch_call list \<Rightarrow> string \<Rightarrow> RequestInit \<Rightarrow> string \<Rightarrow>
   (js_exn + response) \<times> fetch_call list" where
  "makeRequest E sent url options authToken =
     (case makeRequest_headers options authToken of
        Inl e \<Rightarrow> (Inl e, sent)
      | Inr hs \<Rightarrow>
          (let c = \<lparr>fetch_url = url, fetch_method = http_method options,
                    fetch_headers = hs, fetch_body = body options\<rparr>
           in (fetch E (length sent) c, sent @ [c])))"

section \<open>\<^verbatim>\<open>request\<close>\<close>

definition unauthorized :: jsval where
  "unauthorized = JObj [(''code'', JStr ''UNAUTHORIZED''), (''message'', JStr ''Unauthorized'')]"

definition unknown_error :: jsval where
  "unknown_error = JObj [(''code'', JStr ''UNKNOWN_ERROR''), (''message'', JStr ''An error occurred'')]"

definition no_data :: jsval where
  "no_data = JObj [(''data'', JUndefined)]"

text \<open>\<^verbatim>\<open>throw new ApiError(e.code, e.message, status)\<close> for a value \<open>e\<close>.\<close>

definition throw_ApiError_of :: "jsval \<Rightarrow> nat \<Rightarrow> js_exn" where
  "throw_ApiError_of e st =
     (case get_prop e ''code'' of
        Inl x \<Rightarrow> x
      | Inr c \<Rightarrow>
          (case get_prop e ''message'' of
             Inl x \<Rightarrow> x
           | Inr m \<Rightarrow> ApiErr (ApiError c m st)))"

text \<open>
  Lines 115 to 126, the handler of the inner \<^verbatim>\<open>try\<close>: what it throws for the first
  response.
\<close>

definition original_401_error :: "env \<Rightarrow> response \<Rightarrow> js_exn" where
  "original_401_error E r =
     (let data =
            (case resp_text r of
               Inl e \<Rightarrow> JObj [(''error'', unauthorized)]
             | Inr text \<Rightarrow>
                 if text \<noteq> [] then
                   (case JSON_parse E text of
                      Inl e \<Rightarrow> JObj [(''error'', unauthorized)]
                    | Inr d \<Rightarrow> d)
                 else JObj [(''error'', unauthorized)])
      in case get_prop data ''error'' of
           Inl x \<Rightarrow> x
         | Inr err \<Rightarrow> throw_ApiError_of (or_else err unauthorized) (resp_status r))"

text \<open>\<^verbatim>\<open>String.prototype.trim\<close> on code units below 256.\<close>

definition js_whitespace :: "char \<Rightarrow> bool" where
  "js_whitespace c = (c \<in> {CHR 0x09, CHR 0x0A, CHR 0x0B, CHR 0x0C, CHR 0x0D, CHR 0x20, CHR 0xA0})"

definition js_trim :: "string \<Rightarrow> string" where
  "js_trim s = rev (dropWhile js_whitespace (rev (dropWhile js_whitespace s)))"

text \<open>Lines 146 to 156, the handler around reading and parsing the body.\<close>

definition parse_catch :: "js_exn \<Rightarrow> nat \<Rightarrow> js_exn" where
  "parse_catch parseError st =
     (case parseError of
        ApiErr a \<Rightarrow> ApiErr a
      | JsError m \<Rightarrow>
          ApiErr (ApiError (JStr ''INVALID_RESPONSE'')
                    (JStr (''Failed to parse server response: '' @ m)) st)
      | NonError \<Rightarrow>
          ApiErr (ApiError (JStr ''INVALID_RESPONSE'')
                    (JStr (''Failed to parse server response: '' @ ''Invalid JSON'')) st))"

text \<open>Lines 129 to 163: what the final response becomes.\<close>

definition read_response :: "env \<Rightarrow> response \<Rightarrow> js_exn + jsval" where
  "read_response E r =
     (if resp_status r = 204 then Inr no_data
      else
        (case resp_text r of
           Inl e \<Rightarrow> Inl (parse_catch e (resp_status r))
         | Inr text \<Rightarrow>
             if text = [] \<or> js_trim text = [] then
               (if \<not> ok r then
                  Inl (parse_catch
                         (ApiErr (ApiError (JStr ''EMPTY_RESPONSE'')
                                    (JStr ''Server returned empty response'') (resp_status r)))
                         (resp_status r))
                else Inr no_data)
             else
               (case JSON_parse E text of
                  Inl e \<Rightarrow> Inl (parse_catch e (resp_status r))
                | Inr data \<Rightarrow>
                    if \<not> ok r then
                      (case get_prop data ''error'' of
                         Inl x \<Rightarrow> Inl x
                       | Inr err \<Rightarrow>
                           Inl (throw_ApiError_of (or_else err unknown_error) (resp_status r)))
                    else Inr data)))"

text \<open>Lines 164 to 175, the handler of the outer \<^verbatim>\<open>try\<close>.\<close>

definition outer_catch :: "js_exn \<Rightarrow> ApiError" where
  "outer_catch error =
     (case error of
        ApiErr a \<Rightarrow> a
      | JsError m \<Rightarrow> ApiError (JStr ''NETWORK_ERROR'') (JStr m) 0
      | NonError \<Rightarrow> ApiError (JStr ''NETWORK_ERROR'') (JStr ''Network request failed'') 0)"

text \<open>
  One call of \<^verbatim>\<open>request\<close>, for awaits that settle: what the caller gets (the error
  thrown or the value returned), the calls given to \<^verbatim>\<open>fetch\<close> in order, and how many
  times \<^verbatim>\<open>handle401Error\<close> was called.
\<close>

record outcome =
  result :: "ApiError + jsval"
  sent :: "fetch_call list"
  coordinator_calls :: nat

definition request_body ::
  "env \<Rightarrow> string \<Rightarrow> RequestInit \<Rightarrow> (js_exn + jsval) \<times> fetch_call list \<times> nat" where
  "request_body E endpoint options =
     (let url = baseURL E @ endpoint;
          token = accessToken E
      in case makeRequest E [] url options (case token of Some t \<Rightarrow> t | None \<Rightarrow> []) of
           (Inl e, s1) \<Rightarrow> (Inl e, s1, 0)
         | (Inr response, s1) \<Rightarrow>
             if resp_status response = 401 then
               (case awaited401 E of
                  Inl e \<Rightarrow> (Inl (original_401_error E response), s1, 1)
                | Inr newToken \<Rightarrow>
                    if newToken \<noteq> [] then
                      (case makeRequest E s1 url options newToken of
                         (Inl e, s2) \<Rightarrow> (Inl (original_401_error E response), s2, 1)
                       | (Inr response', s2) \<Rightarrow> (read_response E response', s2, 1))
                    else (read_response E response, s1, 1))
             else (read_response E response, s1, 0))"

definition request :: "env \<Rightarrow> string \<Rightarrow> RequestInit \<Rightarrow> outcome" where
  "request E endpoint options =
     (case request_body E endpoint options of
        (r, s, n) \<Rightarrow>
          \<lparr>result = (case r of Inl e \<Rightarrow> Inl (outer_catch e) | Inr v \<Rightarrow> Inr v),
           sent = s, coordinator_calls = n\<rparr>)"

section \<open>The verbs\<close>

text \<open>\<^verbatim>\<open>{ ...options, method: m, body: b }\<close>, with \<^verbatim>\<open>options\<close> possibly absent.\<close>

definition no_options :: RequestInit where
  "no_options = \<lparr>http_method = None, headers = None, body = None\<rparr>"

definition get :: "env \<Rightarrow> string \<Rightarrow> RequestInit option \<Rightarrow> outcome" where
  "get E endpoint options =
     request E endpoint
       ((case options of Some opts \<Rightarrow> opts | None \<Rightarrow> no_options)\<lparr>http_method := Some ''GET''\<rparr>)"

definition post :: "env \<Rightarrow> string \<Rightarrow> jsval \<Rightarrow> RequestInit option \<Rightarrow> outcome" where
  "post E endpoint b options =
     request E endpoint
       ((case options of Some opts \<Rightarrow> opts | None \<Rightarrow> no_options)
          \<lparr>http_method := Some ''POST'',
           body := (if truthy b then Some (JSON_stringify E b) else None)\<rparr>)"

definition put :: "env \<Rightarrow> string \<Rightarrow> jsval \<Rightarrow> RequestInit option \<Rightarrow> outcome" where
  "put E endpoint b options =
     request E endpoint
       ((case options of Some opts \<Rightarrow> opts | None \<Rightarrow> no_options)
          \<lparr>http_method := Some ''PUT'',
           body := (if truthy b then Some (JSON_stringify E b) else None)\<rparr>)"

definition patch :: "env \<Rightarrow> string \<Rightarrow> jsval \<Rightarrow> RequestInit option \<Rightarrow> outcome" where
  "patch E endpoint b options =
     request E endpoint
       ((case options of Some opts \<Rightarrow> opts | None \<Rightarrow> no_options)
          \<lparr>http_method := Some ''PATCH'',
           body := (if truthy b then Some (JSON_stringify E b) else None)\<rparr>)"

definition delete :: "env \<Rightarrow> string \<Rightarrow> RequestInit option \<Rightarrow> outcome" where
  "delete E endpoint options =
     request E endpoint
       ((case options of Some opts \<Rightarrow> opts | None \<Rightarrow> no_options)\<lparr>http_method := Some ''DELETE''\<rparr>)"

section \<open>The refresh coordinator\<close>

text \<open>
  \<^verbatim>\<open>isRefreshing\<close> and \<^verbatim>\<open>refreshSubscribers\<close> are shared by all requests of the module.
  Requests interleave at their awaits only, so the coordinator is a transition system
  whose steps are the synchronous stretches of \<^verbatim>\<open>handle401Error\<close> and of the timer
  callback.

  A waiter's promise settles once: \<^verbatim>\<open>resolve\<close> and \<^verbatim>\<open>reject\<close> leave a settled promise as
  it is. \<^verbatim>\<open>clearTimeout\<close> disarms a timer that has not fired.
\<close>

datatype promise = Pending | Fulfilled string | Rejected js_exn

datatype timer = Armed nat | Cleared | Fired

definition resolve :: "promise \<Rightarrow> string \<Rightarrow> promise" where
  "resolve p token = (case p of Pending \<Rightarrow> Fulfilled token | _ \<Rightarrow> p)"

definition reject :: "promise \<Rightarrow> js_exn \<Rightarrow> promise" where
  "reject p e = (case p of Pending \<Rightarrow> Rejected e | _ \<Rightarrow> p)"

definition clearTimeout :: "timer \<Rightarrow> timer" where
  "clearTimeout t = (case t of Armed d \<Rightarrow> Cleared | _ \<Rightarrow> t)"

text \<open>
  One call of \<^verbatim>\<open>handle401Error\<close>: suspended at \<^verbatim>\<open>await authStore.refreshAccessToken()\<close>,
  returned with the token, left by \<^verbatim>\<open>throw\<close>, or holding the promise of the waiting
  branch together with its timer (armed with the time at which it is due).
\<close>

datatype flow = Refreshing | Returned string | Threw js_exn | Waiting promise timer

text \<open>What \<^verbatim>\<open>await handle401Error()\<close> gives the request, once it is determined.\<close>

fun settled :: "flow \<Rightarrow> (js_exn + string) option" where
  "settled Refreshing = None"
| "settled (Returned token) = Some (Inr token)"
| "settled (Threw e) = Some (Inl e)"
| "settled (Waiting Pending t) = None"
| "settled (Waiting (Fulfilled token) t) = Some (Inr token)"
| "settled (Waiting (Rejected e) t) = Some (Inl e)"

text \<open>
  The module state, the calls of \<^verbatim>\<open>handle401Error\<close> made so far (a call is named by
  its position), the clock in milliseconds, and what the collaborators have seen: the
  number of calls of \<^verbatim>\<open>refreshAccessToken\<close> and of \<^verbatim>\<open>clearAuth\<close>, the errors given to the
  logger, and \<^verbatim>\<open>window.location.pathname\<close>. A subscriber is the callback of the waiting
  call of that position.
\<close>

record coordinator =
  isRefreshing :: bool
  refreshSubscribers :: "nat list"
  flows :: "flow list"
  now :: nat
  refresh_calls :: nat
  clearAuth_calls :: nat
  logged :: "js_exn list"
  pathname :: string

definition init :: coordinator where
  "init = \<lparr>isRefreshing = False, refreshSubscribers = [], flows = [], now = 0,
           refresh_calls = 0, clearAuth_calls = 0, logged = [], pathname = ''/''\<rparr>"

definition subscribeToRefresh :: "nat \<Rightarrow> coordinator \<Rightarrow> coordinator" where
  "subscribeToRefresh callback s = s\<lparr>refreshSubscribers := refreshSubscribers s @ [callback]\<rparr>"

text \<open>The callback of lines 96 to 99, for the waiting call \<open>i\<close>.\<close>

definition waiter_callback :: "nat \<Rightarrow> string \<Rightarrow> flow list \<Rightarrow> flow list" where
  "waiter_callback i token fs =
     (if i < length fs then
        (case fs ! i of
           Waiting p t \<Rightarrow> fs[i := Waiting (resolve p token) (clearTimeout t)]
         | _ \<Rightarrow> fs)
      else fs)"

definition onRefreshed :: "string \<Rightarrow> coordinator \<Rightarrow> coordinator" where
  "onRefreshed token s =
     s\<lparr>flows := fold (\<lambda>callback fs. waiter_callback callback token fs)
                   (refreshSubscribers s) (flows s),
       refreshSubscribers := []\<rparr>"

fun is_prefix :: "string \<Rightarrow> string \<Rightarrow> bool" where
  "is_prefix [] ys = True"
| "is_prefix (x # xs) [] = False"
| "is_prefix (x # xs) (y # ys) = (x = y \<and> is_prefix xs ys)"

text \<open>\<^verbatim>\<open>s.includes(sub)\<close>\<close>

fun js_includes :: "string \<Rightarrow> string \<Rightarrow> bool" where
  "js_includes [] sub = (sub = [])"
| "js_includes (c # cs) sub = (is_prefix sub (c # cs) \<or> js_includes cs sub)"

definition clearAuthAndRedirect :: "coordinator \<Rightarrow> coordinator" where
  "clearAuthAndRedirect s =
     (let s' = s\<lparr>clearAuth_calls := clearAuth_calls s + 1\<rparr>
      in if \<not> js_includes (pathname s') ''/login'' then s'\<lparr>pathname := ''/login''\<rparr> else s')"

definition refresh_timeout_error :: js_exn where
  "refresh_timeout_error = JsError ''Token refresh timeout''"

definition no_token_error :: js_exn where
  "no_token_error = JsError ''Failed to get new token after refresh''"

text \<open>
  \<^verbatim>\<open>handle401Error\<close> from its call to its first await or to its return: lines 68 to 72,
  or lines 91 to 100.
\<close>

definition handle401Error_call :: "coordinator \<Rightarrow> coordinator" where
  "handle401Error_call s =
     (if \<not> isRefreshing s then
        s\<lparr>isRefreshing := True,
          refresh_calls := refresh_calls s + 1,
          flows := flows s @ [Refreshing]\<rparr>
      else
        subscribeToRefresh (length (flows s))
          (s\<lparr>flows := flows s @ [Waiting Pending (Armed (now s + 10000))]\<rparr>))"

text \<open>Lines 80 to 88: the handler and the \<^verbatim>\<open>finally\<close> block, for the call \<open>i\<close>.\<close>

definition refresh_failed :: "nat \<Rightarrow> js_exn \<Rightarrow> coordinator \<Rightarrow> coordinator" where
  "refresh_failed i error s =
     (let s1 = clearAuthAndRedirect s;
          s2 = (case error of
                  NonError \<Rightarrow> s1
                | _ \<Rightarrow> s1\<lparr>logged := logged s1 @ [error]\<rparr>)
      in s2\<lparr>flows := (flows s2)[i := Threw error], isRefreshing := False\<rparr>)"

text \<open>
  \<^verbatim>\<open>handle401Error\<close> from the moment the awaited refresh settles: lines 73 to 88.
  \<open>rejection\<close> is the reason when \<^verbatim>\<open>refreshAccessToken()\<close> rejected; \<open>stored\<close> is what
  \<^verbatim>\<open>authStore.accessToken\<close> reads afterwards.
\<close>

definition handle401Error_resume ::
  "nat \<Rightarrow> js_exn option \<Rightarrow> string option \<Rightarrow> coordinator \<Rightarrow> coordinator" where
  "handle401Error_resume i rejection stored s =
     (case rejection of
        Some error \<Rightarrow> refresh_failed i error s
      | None \<Rightarrow>
          (case stored of
             None \<Rightarrow> refresh_failed i no_token_error s
           | Some newToken \<Rightarrow>
               if newToken \<noteq> [] then
                 (let s1 = onRefreshed newToken s
                  in s1\<lparr>flows := (flows s1)[i := Returned newToken], isRefreshing := False\<rparr>)
               else refresh_failed i no_token_error s))"

text \<open>The callback of lines 92 to 94, for the waiting call \<open>i\<close>.\<close>

definition timeout_callback :: "nat \<Rightarrow> coordinator \<Rightarrow> coordinator" where
  "timeout_callback i s =
     (case flows s ! i of
        Waiting p t \<Rightarrow> s\<lparr>flows := (flows s)[i := Waiting (reject p refresh_timeout_error) Fired]\<rparr>
      | _ \<Rightarrow> s)"

text \<open>
  The steps: a request that received 401 calls \<^verbatim>\<open>handle401Error\<close>; the refresh awaited
  by call \<open>i\<close> settles; the timer of call \<open>i\<close> fires; a millisecond passes. A step that is
  not enabled leaves the state as it is. Timers fire on time: the clock does not pass
  the due time of an armed timer.
\<close>

datatype event =
    Call
  | RefreshSettles nat "js_exn option" "string option"
  | TimerFires nat
  | Tick

definition timer_due :: "nat \<Rightarrow> flow \<Rightarrow> bool" where
  "timer_due t f = (case f of Waiting p (Armed d) \<Rightarrow> d \<le> t | _ \<Rightarrow> False)"

fun step :: "event \<Rightarrow> coordinator \<Rightarrow> coordinator" where
  "step Call s = handle401Error_call s"
| "step (RefreshSettles i rejection stored) s =
     (if i < length (flows s) \<and> flows s ! i = Refreshing
      then handle401Error_resume i rejection stored s else s)"
| "step (TimerFires i) s =
     (if i < length (flows s) \<and> timer_due (now s) (flows s ! i)
      then timeout_callback i s else s)"
| "step Tick s =
     (if list_ex (timer_due (now s)) (flows s) then s else s\<lparr>now := now s + 1\<rparr>)"

definition run :: "event list \<Rightarrow> coordinator \<Rightarrow> coordinator" where
  "run es s = fold step es s"

section \<open>Notions used in the statements\<close>





text \<open>
  Two requests have called \<^verbatim>\<open>handle401Error\<close> and 10000 ms have passed: the timer of
  the second is due.
\<close>

definition at_deadline :: coordinator where
  "at_deadline = run ([Call, Call] @ replicate 10000 Tick) init"

text \<open>
  The collaborators of the examples. The parser gives what \<^verbatim>\<open>JSON.parse\<close> gives on the
  three texts listed and throws on any other text; the examples use these three and
  texts that are not JSON. Likewise \<^verbatim>\<open>JSON.stringify\<close> is given on the values used.
\<close>

definition sample_parse :: "string \<Rightarrow> js_exn + jsval" where
  \<open>sample_parse text =
     (if text = ''null'' then Inr JNull
      else if text = ''{"data":{"id":1}}'' then
        Inr (JObj [(''data'', JObj [(''id'', JNum 1)])])
      else if text = ''{"error":{"code":"TOKEN_EXPIRED","message":"expired"}}'' then
        Inr (JObj [(''error'', JObj [(''code'', JStr ''TOKEN_EXPIRED''),
                                     (''message'', JStr ''expired'')])])
      else Inl (JsError ''Unexpected token''))\<close>

definition sample_stringify :: "jsval \<Rightarrow> string" where
  "sample_stringify v = (if v = JArr [JNum 1] then ''[1]'' else ''true'')"

definition sample_env :: env where
  "sample_env =
     \<lparr>JSON_parse = sample_parse, JSON_stringify = sample_stringify,
      fetch = (\<lambda>n c. Inr \<lparr>resp_status = 200, resp_text = Inr []\<rparr>),
      baseURL = ''/api/v1'', accessToken = Some ''t1'', awaited401 = Inr ''t2''\<rparr>"

text \<open>
  The first call of \<^verbatim>\<open>makeRequest\<close> of a request and the one after a refresh, and what
  the handler of the outer \<^verbatim>\<open>try\<close> makes of the result of the body.
\<close>

definition first_attempt :: "env \<Rightarrow> string \<Rightarrow> RequestInit \<Rightarrow> (js_exn + response) \<times> fetch_call list" where
  "first_attempt E endpoint options =
     makeRequest E [] (baseURL E @ endpoint) options
       (case accessToken E of Some t \<Rightarrow> t | None \<Rightarrow> [])"

definition retry_attempt ::
  "env \<Rightarrow> string \<Rightarrow> RequestInit \<Rightarrow> string \<Rightarrow> (js_exn + response) \<times> fetch_call list" where
  "retry_attempt E endpoint options newToken =
     makeRequest E (snd (first_attempt E endpoint options)) (baseURL E @ endpoint) options newToken"

definition surfaced :: "js_exn + jsval \<Rightarrow> ApiError + jsval" where
  "surfaced r = (case r of Inl e \<Rightarrow> Inl (outer_catch e) | Inr v \<Rightarrow> Inr v)"

text \<open>
  \<^verbatim>\<open>v.k\<close> where it does not throw, the options of a verb, and the token of the first
  attempt.
\<close>

definition field :: "jsval \<Rightarrow> string \<Rightarrow> jsval" where
  "field v k = (case get_prop v k of Inr w \<Rightarrow> w | Inl e \<Rightarrow> JUndefined)"

definition the_options :: "RequestInit option \<Rightarrow> RequestInit" where
  "the_options options = (case options of Some opts \<Rightarrow> opts | None \<Rightarrow> no_options)"

definition first_token :: "env \<Rightarrow> string" where
  "first_token E = (case accessToken E of Some t \<Rightarrow> t | None \<Rightarrow> [])"

text \<open>
  Servers for the examples: one that answers every call with 401 and an error object,
  one that answers the retry with 401 and the body \<^verbatim>\<open>null\<close>, one that answers 401 with
  the body \<^verbatim>\<open>null\<close> while the refresh fails, and one that answers 401 with an empty
  body while the refresh yields no token.
\<close>

definition expired_response :: response where
  \<open>expired_response =
     \<lparr>resp_status = 401,
      resp_text = Inr ''{"error":{"code":"TOKEN_EXPIRED","message":"expired"}}''\<rparr>\<close>

definition rejecting_env :: env where
  "rejecting_env = sample_env\<lparr>fetch := (\<lambda>n c. Inr expired_response)\<rparr>"

definition retry_null_env :: env where
  "retry_null_env =
     sample_env\<lparr>fetch := (\<lambda>n c. if n = 0 then Inr expired_response
                               else Inr \<lparr>resp_status = 401, resp_text = Inr ''null''\<rparr>)\<rparr>"

definition null_401_env :: env where
  "null_401_env =
     sample_env\<lparr>fetch := (\<lambda>n c. Inr \<lparr>resp_status = 401, resp_text = Inr ''null''\<rparr>),
                awaited401 := Inl (JsError ''refresh rejected'')\<rparr>"

definition no_token_env :: env where
  "no_token_env =
     sample_env\<lparr>fetch := (\<lambda>n c. Inr \<lparr>resp_status = 401, resp_text = Inr []\<rparr>),
                awaited401 := Inl no_token_error\<rparr>"



definition named :: "string \<Rightarrow> (string \<times> string) list \<Rightarrow> (string \<times> string) list" where
  "named n kvs = filter (\<lambda>(k, v). same_name k n) kvs"



text \<open>
  A waiter whose promise is pending has an armed timer that is due within the next
  10000 ms and not overdue.
\<close>

definition within_deadline :: "nat \<Rightarrow> flow \<Rightarrow> bool" where
  "within_deadline t f =
     (case f of
        Waiting Pending (Armed d) \<Rightarrow> t \<le> d \<and> d \<le> t + 10000
      | Waiting Pending _ \<Rightarrow> False
      | _ \<Rightarrow> True)"

definition deadline_inv :: "coordinator \<Rightarrow> bool" where
  "deadline_inv s = list_all (within_deadline (now s)) (flows s)"

section \<open>Unfolding the model on concrete inputs\<close>

lemmas coordinator_defs =
  run_def init_def handle401Error_call_def handle401Error_resume_def refresh_failed_def
  clearAuthAndRedirect_def subscribeToRefresh_def onRefreshed_def waiter_callback_def
  timeout_callback_def timer_due_def resolve_def reject_def clearTimeout_def
  no_token_error_def refresh_timeout_error_def

lemmas request_defs =
  request_def request_body_def makeRequest_def makeRequest_headers_def new_Headers_def
  headers_append_def headers_get_def headers_set_def headers_contains_def spread_def
  property_order_def is_array_index_def index_value_def digit_char_def digit_value_def
  same_name_def lower_def lower_char_def normalize_value_def http_whitespace_def
  is_header_name_def is_header_value_def token_char_def read_response_def
  original_401_error_def throw_ApiError_of_def parse_catch_def outer_catch_def or_else_def
  ok_def js_trim_def js_whitespace_def unauthorized_def unknown_error_def no_data_def
  no_options_def post_def put_def patch_def get_def delete_def null_property_message_def

section \<open>The coordinator: one refresh at a time\<close>


lemma waiter_callback_length [simp]: "length (waiter_callback i token fs) = length fs"
  by (simp add: waiter_callback_def split: flow.splits)



lemma fold_callback_length [simp]:
  "length (fold (\<lambda>c fs. waiter_callback c token fs) cs fs) = length fs"
  by (induction cs arbitrary: fs) simp_all



lemma clearAuthAndRedirect_fields [simp]:
  "flows (clearAuthAndRedirect s) = flows s"
  "isRefreshing (clearAuthAndRedirect s) = isRefreshing s"
  "refreshSubscribers (clearAuthAndRedirect s) = refreshSubscribers s"
  "now (clearAuthAndRedirect s) = now s"
  "refresh_calls (clearAuthAndRedirect s) = refresh_calls s"
  "clearAuth_calls (clearAuthAndRedirect s) = clearAuth_calls s + 1"
  by (simp_all add: clearAuthAndRedirect_def Let_def)

lemma refresh_failed_fields [simp]:
  "flows (refresh_failed i e s) = (flows s)[i := Threw e]"
  "isRefreshing (refresh_failed i e s) = False"
  "refreshSubscribers (refresh_failed i e s) = refreshSubscribers s"
  "now (refresh_failed i e s) = now s"
  "refresh_calls (refresh_failed i e s) = refresh_calls s"
  "clearAuth_calls (refresh_failed i e s) = clearAuth_calls s + 1"
  by (simp_all add: refresh_failed_def Let_def split: js_exn.splits)



lemma handle401Error_resume_flag [simp]: "isRefreshing (handle401Error_resume i r t s) = False"
  by (simp add: handle401Error_resume_def Let_def split: option.splits)


lemma timeout_callback_flag [simp]: "isRefreshing (timeout_callback i s) = isRefreshing s"
  by (simp add: timeout_callback_def split: flow.splits)




lemma timeout_callback_fields [simp]:
  "refresh_calls (timeout_callback i s) = refresh_calls s"
  "refreshSubscribers (timeout_callback i s) = refreshSubscribers s"
  "length (flows (timeout_callback i s)) = length (flows s)"
  "now (timeout_callback i s) = now s"
  "clearAuth_calls (timeout_callback i s) = clearAuth_calls s"
  by (simp_all add: timeout_callback_def split: flow.splits)

lemma timeout_callback_flows_nil [simp]:
  "(flows (timeout_callback i s) = []) = (flows s = [])"
  using timeout_callback_fields(3) [of i s] by (metis length_0_conv)



lemma handle401Error_resume_length [simp]:
  "length (flows (handle401Error_resume i r t s)) = length (flows s)"
  by (simp add: handle401Error_resume_def onRefreshed_def Let_def split: option.splits)






section \<open>The coordinator: a refresh that fails\<close>

text \<open>
  The two ways out of the refreshing call: success empties the queue, failure leaves it
  as it was. In every state reached from the start, a waiter that is still pending is
  within 10000 ms of its registration: its timer is armed and not overdue.
\<close>

lemma resume_success_empties_queue:
  "newToken \<noteq> [] \<Longrightarrow>
   refreshSubscribers (handle401Error_resume i None (Some newToken) s) = []"
  by (simp add: handle401Error_resume_def onRefreshed_def Let_def)

lemma resume_failure_keeps_queue:
  "rejection \<noteq> None \<or> stored = None \<or> stored = Some [] \<Longrightarrow>
   refreshSubscribers (handle401Error_resume i rejection stored s) = refreshSubscribers s"
  by (auto simp add: handle401Error_resume_def split: option.splits)

lemma within_deadline_callback:
  "list_all (within_deadline t) fs \<Longrightarrow> list_all (within_deadline t) (waiter_callback c token fs)"
proof (cases "c < length fs")
  case True
  assume a: "list_all (within_deadline t) fs"
  show ?thesis
  proof (cases "fs ! c")
    case (Waiting p tm)
    have "within_deadline t (Waiting (resolve p token) (clearTimeout tm))"
      using a True Waiting
      by (cases p; cases tm)
         (auto simp add: within_deadline_def resolve_def clearTimeout_def list_all_length)
    with a True Waiting show ?thesis
      by (auto simp add: waiter_callback_def list_all_length nth_list_update)
  qed (use a in \<open>simp_all add: waiter_callback_def\<close>)
next
  case False
  assume "list_all (within_deadline t) fs"
  with False show ?thesis by (simp add: waiter_callback_def)
qed

lemma within_deadline_fold:
  "list_all (within_deadline t) fs \<Longrightarrow>
   list_all (within_deadline t) (fold (\<lambda>c fs. waiter_callback c token fs) cs fs)"
  by (induction cs arbitrary: fs) (simp_all add: within_deadline_callback)

lemma within_deadline_update:
  "list_all (within_deadline t) fs \<Longrightarrow> within_deadline t f \<Longrightarrow>
   list_all (within_deadline t) (fs[i := f])"
  by (cases "i < length fs") (auto simp add: list_all_length nth_list_update)

lemma resume_now [simp]: "now (handle401Error_resume i r st s) = now s"
  by (simp add: handle401Error_resume_def onRefreshed_def Let_def split: option.splits)

lemma resume_deadline_inv:
  "deadline_inv s \<Longrightarrow> deadline_inv (handle401Error_resume i r st s)"
  unfolding deadline_inv_def
  by (auto simp add: handle401Error_resume_def onRefreshed_def Let_def within_deadline_fold
      within_deadline_update within_deadline_def split: option.splits)

lemma timeout_deadline_inv:
  "deadline_inv s \<Longrightarrow> i < length (flows s) \<Longrightarrow> deadline_inv (timeout_callback i s)"
  unfolding deadline_inv_def
  by (cases "flows s ! i")
     (auto simp add: timeout_callback_def within_deadline_update within_deadline_def reject_def
      split: promise.splits)

lemma tick_deadline:
  "within_deadline t f \<Longrightarrow> \<not> timer_due t f \<Longrightarrow> within_deadline (Suc t) f"
  by (auto simp add: within_deadline_def timer_due_def split: flow.splits promise.splits timer.splits)

lemma step_deadline_inv: "deadline_inv s \<Longrightarrow> deadline_inv (step e s)"
proof (cases e)
  case Call
  assume "deadline_inv s"
  with Call show ?thesis
    by (simp add: deadline_inv_def handle401Error_call_def subscribeToRefresh_def
        within_deadline_def)
next
  case (RefreshSettles i r st)
  assume "deadline_inv s"
  with RefreshSettles show ?thesis by (simp add: resume_deadline_inv)
next
  case (TimerFires i)
  assume "deadline_inv s"
  with TimerFires show ?thesis by (simp add: timeout_deadline_inv)
next
  case Tick
  assume "deadline_inv s"
  with Tick show ?thesis
    by (auto simp add: deadline_inv_def list_all_iff list_ex_iff tick_deadline)
qed

lemma run_deadline_inv: "deadline_inv s \<Longrightarrow> deadline_inv (run es s)"
  unfolding run_def by (induction es arbitrary: s) (simp_all add: step_deadline_inv)

lemma pending_within_deadline:
  assumes "i < length (flows (run es init))" "flows (run es init) ! i = Waiting Pending t"
  shows "\<exists>d. t = Armed d \<and> now (run es init) \<le> d \<and> d \<le> now (run es init) + 10000"
proof -
  have "deadline_inv init" by (simp add: deadline_inv_def init_def)
  then have "deadline_inv (run es init)" by (rule run_deadline_inv)
  with assms have "within_deadline (now (run es init)) (Waiting Pending t)"
    by (auto simp add: deadline_inv_def list_all_length)
  then show ?thesis by (cases t) (simp_all add: within_deadline_def)
qed

text \<open>
  C2. Two requests receive 401: the first starts the refresh, the second is queued.
  The refresh is rejected. When the first call has left \<^verbatim>\<open>handle401Error\<close>, the flag is
  cleared, and the callback of the second call is still in \<^verbatim>\<open>refreshSubscribers\<close>:
  only \<^verbatim>\<open>onRefreshed\<close>, on the path of success, empties the queue.
\<close>

theorem failed_refresh_keeps_subscribers:
  "isRefreshing (run [Call, Call, RefreshSettles 0 (Some (JsError ''refresh rejected'')) None] init)
     = False \<and>
   refreshSubscribers
     (run [Call, Call, RefreshSettles 0 (Some (JsError ''refresh rejected'')) None] init) = [1]"
  by (simp add: coordinator_defs)

text \<open>
  C3. On the login page, two requests receive 401 and the refresh of the first is
  rejected; the second stays queued. A third request receives 401 and its refresh
  succeeds before the timer of the second is due: the promise of the second call, whose
  refresh had failed, is fulfilled with the token of the later refresh.
\<close>

theorem waiter_of_failed_refresh_fulfilled:
  "flows (run [Call, Call, RefreshSettles 0 (Some (JsError ''refresh rejected'')) None,
               Tick, Call, RefreshSettles 2 None (Some ''t2'')]
            (init\<lparr>pathname := ''/login''\<rparr>)) ! 1 = Waiting (Fulfilled ''t2'') Cleared"
  by (simp add: coordinator_defs)

section \<open>The coordinator: a promise settles once\<close>

lemma settled_resolve:
  "settled (Waiting p t) = Some r \<Longrightarrow> settled (Waiting (resolve p token) t') = Some r"
  by (cases p) (simp_all add: resolve_def)

lemma settled_reject:
  "settled (Waiting p t) = Some r \<Longrightarrow> settled (Waiting (reject p e) t') = Some r"
  by (cases p) (simp_all add: reject_def)

lemma waiter_callback_settled:
  assumes "settled (fs ! i) = Some r"
  shows "settled (waiter_callback c token fs ! i) = Some r"
proof (cases "c < length fs")
  case True
  show ?thesis
  proof (cases "fs ! c")
    case (Waiting p t)
    show ?thesis
    proof (cases "c = i")
      case True
      with Waiting assms \<open>c < length fs\<close> show ?thesis
        by (simp add: waiter_callback_def settled_resolve)
    next
      case False
      with Waiting assms \<open>c < length fs\<close> show ?thesis
        by (simp add: waiter_callback_def)
    qed
  qed (use assms in \<open>simp_all add: waiter_callback_def\<close>)
next
  case False
  with assms show ?thesis by (simp add: waiter_callback_def)
qed

lemma fold_callback_settled:
  "settled (fs ! i) = Some r \<Longrightarrow>
   settled (fold (\<lambda>c fs. waiter_callback c token fs) cs fs ! i) = Some r"
  by (induction cs arbitrary: fs) (simp_all add: waiter_callback_settled)

lemma resume_settled:
  assumes "i < length (flows s)" "settled (flows s ! i) = Some r" "flows s ! j = Refreshing"
  shows "settled (flows (handle401Error_resume j rej stored s) ! i) = Some r"
proof -
  from assms(2,3) have ne: "j \<noteq> i" by auto
  then show ?thesis using assms(1,2)
    by (simp add: handle401Error_resume_def onRefreshed_def Let_def fold_callback_settled
        split: option.splits)
qed

lemma timeout_settled:
  assumes "i < length (flows s)" "settled (flows s ! i) = Some r" "j < length (flows s)"
  shows "settled (flows (timeout_callback j s) ! i) = Some r"
proof (cases "flows s ! j")
  case (Waiting p t)
  show ?thesis
  proof (cases "j = i")
    case True
    with Waiting assms show ?thesis by (simp add: timeout_callback_def settled_reject)
  next
    case False
    with Waiting assms show ?thesis by (simp add: timeout_callback_def)
  qed
qed (use assms in \<open>simp_all add: timeout_callback_def\<close>)

lemma step_settled:
  assumes "i < length (flows s)" "settled (flows s ! i) = Some r"
  shows "i < length (flows (step e s)) \<and> settled (flows (step e s) ! i) = Some r"
proof (cases e)
  case Call
  with assms show ?thesis
    by (simp add: handle401Error_call_def subscribeToRefresh_def nth_append)
next
  case (RefreshSettles j rej stored)
  with assms show ?thesis by (simp add: resume_settled)
next
  case (TimerFires j)
  with assms show ?thesis by (simp add: timeout_settled)
next
  case Tick
  with assms show ?thesis by simp
qed

lemma run_settled:
  "i < length (flows s) \<Longrightarrow> settled (flows s ! i) = Some r \<Longrightarrow>
   settled (flows (run es s) ! i) = Some r"
  unfolding run_def
proof (induction es arbitrary: s)
  case Nil
  then show ?case by simp
next
  case (Cons e es)
  from step_settled [OF Cons.prems] Cons.IH [of "step e s"] show ?case by simp
qed

text \<open>The state of the example: two calls, then 10000 ticks of the clock.\<close>

lemma run_append: "run (xs @ ys) s = run ys (run xs s)"
  by (simp add: run_def)

lemma two_calls:
  "run [Call, Call] init =
     \<lparr>isRefreshing = True, refreshSubscribers = [1],
      flows = [Refreshing, Waiting Pending (Armed 10000)], now = 0,
      refresh_calls = 1, clearAuth_calls = 0, logged = [], pathname = ''/''\<rparr>"
  by (simp add: run_def init_def handle401Error_call_def subscribeToRefresh_def)

lemma ticks_before_deadline:
  "n \<le> 10000 \<Longrightarrow>
   run (replicate n Tick) (run [Call, Call] init) = (run [Call, Call] init)\<lparr>now := n\<rparr>"
proof (induction n)
  case 0
  show ?case by (simp add: two_calls) (simp add: run_def)
next
  case (Suc n)
  then have IH: "run (replicate n Tick) (run [Call, Call] init) = (run [Call, Call] init)\<lparr>now := n\<rparr>"
    and n: "n < 10000" by simp_all
  have "run (replicate (Suc n) Tick) (run [Call, Call] init) =
      step Tick (run (replicate n Tick) (run [Call, Call] init))"
    by (simp add: run_def replicate_append_same [symmetric] del: replicate_Suc)
  also have "\<dots> = (run [Call, Call] init)\<lparr>now := Suc n\<rparr>"
    unfolding IH using n by (simp add: two_calls timer_due_def)
  finally show ?case .
qed

lemma at_deadline_state:
  "at_deadline =
     \<lparr>isRefreshing = True, refreshSubscribers = [1],
      flows = [Refreshing, Waiting Pending (Armed 10000)], now = 10000,
      refresh_calls = 1, clearAuth_calls = 0, logged = [], pathname = ''/''\<rparr>"
  unfolding at_deadline_def run_append
  using ticks_before_deadline [of 10000] by (simp add: two_calls)

text \<open>
  C4. Timeout and success exclude each other for every waiter. When the timer of a
  waiter that is still pending fires, its promise is rejected with the timeout error.
  A later call of its callback with the refreshed token leaves that rejection in place,
  while the callback of a pending waiter fulfils the promise and disarms the timer.
  Whatever \<^verbatim>\<open>await handle401Error()\<close> has given a caller, the token or the error, it
  stays the same through every later step of the coordinator.
\<close>

theorem timeout_and_success_exclusive:
  "(i < length (flows s) \<and> flows s ! i = Waiting Pending (Armed d) \<and> d \<le> now s \<longrightarrow>
      flows (step (TimerFires i) s) ! i = Waiting (Rejected refresh_timeout_error) Fired) \<and>
   (i < length fs \<and> fs ! i = Waiting (Rejected e) t \<longrightarrow>
      waiter_callback i token fs ! i = Waiting (Rejected e) (clearTimeout t)) \<and>
   (i < length fs \<and> fs ! i = Waiting Pending t \<longrightarrow>
      waiter_callback i token fs ! i = Waiting (Fulfilled token) (clearTimeout t)) \<and>
   (i < length (flows s) \<and> settled (flows s ! i) = Some r \<longrightarrow>
      settled (flows (run es s) ! i) = Some r)"
  by (simp add: timer_due_def timeout_callback_def reject_def resolve_def waiter_callback_def
      run_settled)

theorem timeout_and_success_exclusive_witness:
  "flows (step (TimerFires 1) at_deadline) ! 1 = Waiting (Rejected refresh_timeout_error) Fired \<and>
   settled (flows (run [RefreshSettles 0 None (Some ''t2'')] (step (TimerFires 1) at_deadline)) ! 1)
     = Some (Inl refresh_timeout_error) \<and>
   settled (flows (run [Tick, TimerFires 1] (step (RefreshSettles 0 None (Some ''t2'')) at_deadline)) ! 1)
     = Some (Inr ''t2'') \<and>
   waiter_callback 1 ''t2'' (flows at_deadline) ! 1 = Waiting (Fulfilled ''t2'') Cleared \<and>
   waiter_callback 1 ''t2'' (flows (step (TimerFires 1) at_deadline)) ! 1 =
     Waiting (Rejected refresh_timeout_error) Fired"
proof -
  have a: "1 < length (flows at_deadline)" by (simp add: at_deadline_state coordinator_defs)
  have b: "flows at_deadline ! 1 = Waiting Pending (Armed 10000)" by (simp add: at_deadline_state coordinator_defs)
  have c: "10000 \<le> now at_deadline" by (simp add: at_deadline_state coordinator_defs)
  from timeout_and_success_exclusive [where i = 1 and s = at_deadline and d = 10000] a b c
  have 1: "flows (step (TimerFires 1) at_deadline) ! 1 =
      Waiting (Rejected refresh_timeout_error) Fired"
    by blast
  have l: "1 < length (flows (step (TimerFires 1) at_deadline))" by (simp add: at_deadline_state coordinator_defs)
  from 1 have st: "settled (flows (step (TimerFires 1) at_deadline) ! 1) =
      Some (Inl refresh_timeout_error)"
    by simp
  from timeout_and_success_exclusive
         [where i = 1 and s = "step (TimerFires 1) at_deadline"
            and r = "Inl refresh_timeout_error"
            and es = "[RefreshSettles 0 None (Some ''t2'')]"] l st
  have 2: "settled (flows (run [RefreshSettles 0 None (Some ''t2'')]
                       (step (TimerFires 1) at_deadline)) ! 1) =
      Some (Inl refresh_timeout_error)"
    by blast
  have l': "1 < length (flows (step (RefreshSettles 0 None (Some ''t2'')) at_deadline))"
    by (simp add: at_deadline_state coordinator_defs)
  have st': "settled (flows (step (RefreshSettles 0 None (Some ''t2'')) at_deadline) ! 1) =
      Some (Inr ''t2'')"
    by (simp add: at_deadline_state coordinator_defs)
  from timeout_and_success_exclusive
         [where i = 1 and s = "step (RefreshSettles 0 None (Some ''t2'')) at_deadline"
            and r = "Inr ''t2''" and es = "[Tick, TimerFires 1]"] l' st'
  have 3: "settled (flows (run [Tick, TimerFires 1]
                       (step (RefreshSettles 0 None (Some ''t2'')) at_deadline)) ! 1) =
      Some (Inr ''t2'')"
    by blast
  from timeout_and_success_exclusive
         [where i = 1 and fs = "flows at_deadline" and t = "Armed 10000" and token = "''t2''"] a b
  have 4: "waiter_callback 1 ''t2'' (flows at_deadline) ! 1 =
      Waiting (Fulfilled ''t2'') (clearTimeout (Armed 10000))"
    by blast
  from timeout_and_success_exclusive
         [where i = 1 and fs = "flows (step (TimerFires 1) at_deadline)"
            and e = refresh_timeout_error and t = Fired and token = "''t2''"] l 1
  have 5: "waiter_callback 1 ''t2'' (flows (step (TimerFires 1) at_deadline)) ! 1 =
      Waiting (Rejected refresh_timeout_error) (clearTimeout Fired)"
    by blast
  from 1 2 3 4 5 show ?thesis by (simp add: clearTimeout_def)
qed

section \<open>The merged headers\<close>

lemma same_name_refl [simp]: "same_name n n"
  by (simp add: same_name_def)





lemma named_append [simp]: "named n (xs @ ys) = named n xs @ named n ys"
  by (simp add: named_def)


lemma named_Nil [simp]: "named n [] = []"
  by (simp add: named_def)
















lemma normalize_json [simp]: "normalize_value ''application/json'' = ''application/json''"
  by (simp add: normalize_value_def http_whitespace_def)












text \<open>
  An array of pairs is spread under its indices: the caller's header arrives under the
  name \<^verbatim>\<open>0\<close>, and the token is injected.
\<close>

lemma pair_array_is_renamed:
  "makeRequest_headers
     (no_options\<lparr>headers := Some (PairArray [(''Authorization'', ''Basic abc'')])\<rparr>) ''t1'' =
     Inr [(''0'', ''Authorization,Basic abc''), (''Content-Type'', ''application/json''),
          (''Authorization'', ''Bearer t1'')]"
  by (simp add: request_defs enumerate_eq_zip decimal.simps [of 0])

section \<open>One request: retry and classification\<close>

lemma makeRequest_length:
  "length (snd (makeRequest E s url options tok)) \<le> length s + 1"
  by (simp add: makeRequest_def Let_def split: sum.splits)

lemma request_first_failed:
  "fst (first_attempt E endpoint options) = Inl e \<Longrightarrow>
   request E endpoint options =
     \<lparr>result = Inl (outer_catch e), sent = snd (first_attempt E endpoint options),
      coordinator_calls = 0\<rparr>"
  by (cases "first_attempt E endpoint options")
     (simp add: request_def request_body_def first_attempt_def)

lemma request_not_401:
  "fst (first_attempt E endpoint options) = Inr r \<Longrightarrow> resp_status r \<noteq> 401 \<Longrightarrow>
   request E endpoint options =
     \<lparr>result = surfaced (read_response E r), sent = snd (first_attempt E endpoint options),
      coordinator_calls = 0\<rparr>"
  by (cases "first_attempt E endpoint options")
     (simp add: request_def request_body_def first_attempt_def surfaced_def)

lemma request_refresh_failed:
  "fst (first_attempt E endpoint options) = Inr r \<Longrightarrow> resp_status r = 401 \<Longrightarrow>
   awaited401 E = Inl x \<Longrightarrow>
   request E endpoint options =
     \<lparr>result = Inl (outer_catch (original_401_error E r)),
      sent = snd (first_attempt E endpoint options), coordinator_calls = 1\<rparr>"
  by (cases "first_attempt E endpoint options")
     (simp add: request_def request_body_def first_attempt_def)

lemma request_retried:
  "fst (first_attempt E endpoint options) = Inr r \<Longrightarrow> resp_status r = 401 \<Longrightarrow>
   awaited401 E = Inr newToken \<Longrightarrow> newToken \<noteq> [] \<Longrightarrow>
   fst (retry_attempt E endpoint options newToken) = Inr r' \<Longrightarrow>
   request E endpoint options =
     \<lparr>result = surfaced (read_response E r'),
      sent = snd (retry_attempt E endpoint options newToken), coordinator_calls = 1\<rparr>"
  by (cases "first_attempt E endpoint options";
      cases "retry_attempt E endpoint options newToken")
     (simp add: request_def request_body_def first_attempt_def retry_attempt_def surfaced_def)

lemma request_retry_failed:
  "fst (first_attempt E endpoint options) = Inr r \<Longrightarrow> resp_status r = 401 \<Longrightarrow>
   awaited401 E = Inr newToken \<Longrightarrow> newToken \<noteq> [] \<Longrightarrow>
   fst (retry_attempt E endpoint options newToken) = Inl e \<Longrightarrow>
   request E endpoint options =
     \<lparr>result = Inl (outer_catch (original_401_error E r)),
      sent = snd (retry_attempt E endpoint options newToken), coordinator_calls = 1\<rparr>"
  by (cases "first_attempt E endpoint options";
      cases "retry_attempt E endpoint options newToken")
     (simp add: request_def request_body_def first_attempt_def retry_attempt_def)

lemma request_empty_token:
  "fst (first_attempt E endpoint options) = Inr r \<Longrightarrow> resp_status r = 401 \<Longrightarrow>
   awaited401 E = Inr [] \<Longrightarrow>
   request E endpoint options =
     \<lparr>result = surfaced (read_response E r),
      sent = snd (first_attempt E endpoint options), coordinator_calls = 1\<rparr>"
  by (cases "first_attempt E endpoint options")
     (simp add: request_def request_body_def first_attempt_def surfaced_def)

lemma request_bounds:
  "length (sent (request E endpoint options)) \<le> 2 \<and>
   coordinator_calls (request E endpoint options) \<le> 1"
proof -
  have 1: "length (snd (first_attempt E endpoint options)) \<le> 1"
    using makeRequest_length [of E "[]"] by (simp add: first_attempt_def)
  have 2: "length (snd (retry_attempt E endpoint options t)) \<le> 2" for t
  proof -
    have "length (snd (retry_attempt E endpoint options t)) \<le>
        length (snd (first_attempt E endpoint options)) + 1"
      unfolding retry_attempt_def by (rule makeRequest_length)
    with 1 show ?thesis by linarith
  qed
  show ?thesis
  proof (cases "fst (first_attempt E endpoint options)")
    case (Inl e)
    from request_first_failed [OF Inl] 1 show ?thesis by simp
  next
    case (Inr r)
    show ?thesis
    proof (cases "resp_status r = 401")
      case False
      from request_not_401 [OF Inr False] 1 show ?thesis by simp
    next
      case True
      show ?thesis
      proof (cases "awaited401 E")
        case (Inl x)
        from request_refresh_failed [OF Inr True Inl] 1 show ?thesis by simp
      next
        case tok: (Inr newToken)
        show ?thesis
        proof (cases "newToken = []")
          case True
          with tok request_empty_token [OF Inr \<open>resp_status r = 401\<close>] 1 show ?thesis by simp
        next
          case False
          show ?thesis
          proof (cases "fst (retry_attempt E endpoint options newToken)")
            case (Inl e)
            from request_retry_failed [OF Inr True tok False Inl] 2 show ?thesis by simp
          next
            case r': (Inr r')
            from request_retried [OF Inr True tok False r'] 2 show ?thesis by simp
          qed
        qed
      qed
    qed
  qed
qed

lemma read_response_not_ok:
  "\<not> ok r \<Longrightarrow> \<exists>x. read_response E r = Inl x"
  by (auto simp add: read_response_def ok_def split: sum.splits)

text \<open>
  What holds of the retry: a request gives \<^verbatim>\<open>fetch\<close> at most two calls and calls
  \<^verbatim>\<open>handle401Error\<close> at most once; a retry answered with 401 ends the request with what
  reading that response gives, which carries the status 401 when the body is blank or
  parses to anything but \<^verbatim>\<open>null\<close>.
\<close>

lemma get_prop_field: "v \<noteq> JNull \<Longrightarrow> v \<noteq> JUndefined \<Longrightarrow> get_prop v k = Inr (field v k)"
  by (cases v) (simp_all add: field_def)

lemma truthy_not_null: "truthy v \<Longrightarrow> v \<noteq> JNull \<and> v \<noteq> JUndefined"
  by (cases v) simp_all

lemma throw_ApiError_of_field:
  "truthy v \<Longrightarrow> throw_ApiError_of v st = ApiErr (ApiError (field v ''code'') (field v ''message'') st)"
  using truthy_not_null [of v] by (simp add: throw_ApiError_of_def get_prop_field)

lemma truthy_or_else_unknown: "truthy (or_else err unknown_error)"
  by (simp add: or_else_def unknown_error_def)

lemma read_response_401:
  assumes "resp_status r = 401" "resp_text r = Inr text"
  shows "(js_trim text = [] \<longrightarrow>
            read_response E r =
              Inl (ApiErr (ApiError (JStr ''EMPTY_RESPONSE'')
                     (JStr ''Server returned empty response'') 401))) \<and>
         (js_trim text \<noteq> [] \<and> JSON_parse E text = Inl (JsError m) \<longrightarrow>
            read_response E r =
              Inl (ApiErr (ApiError (JStr ''INVALID_RESPONSE'')
                     (JStr (''Failed to parse server response: '' @ m)) 401))) \<and>
         (js_trim text \<noteq> [] \<and> JSON_parse E text = Inr d \<and> d \<noteq> JNull \<and> d \<noteq> JUndefined \<longrightarrow>
            read_response E r =
              Inl (ApiErr (ApiError (field (or_else (field d ''error'') unknown_error) ''code'')
                     (field (or_else (field d ''error'') unknown_error) ''message'') 401)))"
proof -
  have nok: "\<not> ok r" using assms(1) by (simp add: ok_def)
  have t: "js_trim text \<noteq> [] \<Longrightarrow> text \<noteq> []" by (auto simp add: js_trim_def)
  show ?thesis
    using assms nok t
    by (auto simp add: read_response_def parse_catch_def get_prop_field
        throw_ApiError_of_field [OF truthy_or_else_unknown])
qed

lemma retry_once:
  "length (sent (request E endpoint options)) \<le> 2 \<and>
   coordinator_calls (request E endpoint options) \<le> 1 \<and>
   (fst (first_attempt E endpoint options) = Inr r \<and> resp_status r = 401 \<and>
    awaited401 E = Inr newToken \<and> newToken \<noteq> [] \<and>
    fst (retry_attempt E endpoint options newToken) = Inr r' \<and> resp_status r' = 401 \<longrightarrow>
      coordinator_calls (request E endpoint options) = 1 \<and>
      sent (request E endpoint options) = snd (retry_attempt E endpoint options newToken) \<and>
      (\<exists>x. read_response E r' = Inl x \<and>
           result (request E endpoint options) = Inl (outer_catch x)))"
proof -
  have "coordinator_calls (request E endpoint options) = 1 \<and>
      sent (request E endpoint options) = snd (retry_attempt E endpoint options newToken) \<and>
      (\<exists>x. read_response E r' = Inl x \<and>
           result (request E endpoint options) = Inl (outer_catch x))"
    if a: "fst (first_attempt E endpoint options) = Inr r" "resp_status r = 401"
      "awaited401 E = Inr newToken" "newToken \<noteq> []"
      "fst (retry_attempt E endpoint options newToken) = Inr r'" and b: "resp_status r' = 401"
  proof -
    from b have "\<not> ok r'" by (simp add: ok_def)
    then obtain x where x: "read_response E r' = Inl x" using read_response_not_ok by blast
    from request_retried [OF a] x show ?thesis by (simp add: surfaced_def)
  qed
  with request_bounds [of E endpoint options] show ?thesis by blast
qed

lemma second_401_surfaced:
  assumes "fst (first_attempt E endpoint options) = Inr r" "resp_status r = 401"
    "awaited401 E = Inr newToken" "newToken \<noteq> []"
    "fst (retry_attempt E endpoint options newToken) = Inr r'" "resp_status r' = 401"
    "resp_text r' = Inr text"
  shows "(js_trim text = [] \<longrightarrow>
            result (request E endpoint options) =
              Inl (ApiError (JStr ''EMPTY_RESPONSE'') (JStr ''Server returned empty response'') 401)) \<and>
         (js_trim text \<noteq> [] \<and> JSON_parse E text = Inr d \<and> d \<noteq> JNull \<and> d \<noteq> JUndefined \<longrightarrow>
            result (request E endpoint options) =
              Inl (ApiError (field (or_else (field d ''error'') unknown_error) ''code'')
                     (field (or_else (field d ''error'') unknown_error) ''message'') 401))"
  using request_retried [OF assms(1-5)] read_response_401 [OF assms(6,7), of E _ d]
  by (auto simp add: surfaced_def outer_catch_def)

text \<open>
  C5. The first response is 401, the refresh yields a token, and the retry is answered
  with 401 and the body \<^verbatim>\<open>null\<close>. There is one call of \<^verbatim>\<open>handle401Error\<close> and there are
  two calls of \<^verbatim>\<open>fetch\<close>, but the second 401 is not what the caller gets: reading
  \<^verbatim>\<open>data.error\<close> of \<^verbatim>\<open>null\<close> at line 159 throws, and the outer handler reports a
  \<^verbatim>\<open>NETWORK_ERROR\<close> with status 0.
\<close>

theorem retry_401_null_loses_status:
  "result (request retry_null_env ''/items'' no_options) =
     Inl (ApiError (JStr ''NETWORK_ERROR'') (JStr null_property_message) 0) \<and>
   coordinator_calls (request retry_null_env ''/items'' no_options) = 1 \<and>
   length (sent (request retry_null_env ''/items'' no_options)) = 2"
  by (simp add: retry_null_env_def expired_response_def sample_env_def sample_parse_def
      request_defs Let_def)

text \<open>
  C9. Reading the final response: status 204 gives \<^verbatim>\<open>{data: undefined}\<close> whatever the
  body and the parser are; an empty body with an ok status gives \<^verbatim>\<open>{data: undefined}\<close>;
  an empty body with a status that is not ok fails with \<^verbatim>\<open>EMPTY_RESPONSE\<close> at that
  status; a body that parses, with an ok status other than 204, is returned as parsed.
  A request whose first response is not 401 returns what reading that response gives.
\<close>

theorem response_classification:
  "(resp_status r = 204 \<longrightarrow> read_response E r = Inr no_data) \<and>
   (ok r \<and> resp_text r = Inr [] \<longrightarrow> read_response E r = Inr no_data) \<and>
   (\<not> ok r \<and> resp_text r = Inr [] \<longrightarrow>
      read_response E r =
        Inl (ApiErr (ApiError (JStr ''EMPTY_RESPONSE'') (JStr ''Server returned empty response'')
               (resp_status r)))) \<and>
   (ok r \<and> resp_status r \<noteq> 204 \<and> resp_text r = Inr text \<and> js_trim text \<noteq> [] \<and>
    JSON_parse E text = Inr data \<longrightarrow> read_response E r = Inr data) \<and>
   (fst (first_attempt E endpoint options) = Inr r \<and> resp_status r \<noteq> 401 \<longrightarrow>
      result (request E endpoint options) = surfaced (read_response E r))"
proof -
  have 1: "resp_status r = 204 \<longrightarrow> read_response E r = Inr no_data"
    by (simp add: read_response_def)
  have 2: "ok r \<and> resp_text r = Inr [] \<longrightarrow> read_response E r = Inr no_data"
    by (simp add: read_response_def)
  have 3: "\<not> ok r \<and> resp_text r = Inr [] \<longrightarrow>
      read_response E r =
        Inl (ApiErr (ApiError (JStr ''EMPTY_RESPONSE'') (JStr ''Server returned empty response'')
               (resp_status r)))"
    by (auto simp add: read_response_def parse_catch_def ok_def)
  have 4: "ok r \<and> resp_status r \<noteq> 204 \<and> resp_text r = Inr text \<and> js_trim text \<noteq> [] \<and>
    JSON_parse E text = Inr data \<longrightarrow> read_response E r = Inr data"
    by (auto simp add: read_response_def js_trim_def)
  have 5: "fst (first_attempt E endpoint options) = Inr r \<and> resp_status r \<noteq> 401 \<longrightarrow>
      result (request E endpoint options) = surfaced (read_response E r)"
    using request_not_401 [of E endpoint options r] by auto
  from 1 2 3 4 5 show ?thesis by blast
qed

theorem response_classification_witness:
  \<open>read_response sample_env \<lparr>resp_status = 204, resp_text = Inr ''not read''\<rparr> = Inr no_data \<and>
   read_response sample_env \<lparr>resp_status = 200, resp_text = Inr []\<rparr> = Inr no_data \<and>
   read_response sample_env \<lparr>resp_status = 500, resp_text = Inr []\<rparr> =
     Inl (ApiErr (ApiError (JStr ''EMPTY_RESPONSE'') (JStr ''Server returned empty response'') 500)) \<and>
   read_response sample_env \<lparr>resp_status = 200, resp_text = Inr ''{"data":{"id":1}}''\<rparr> =
     Inr (JObj [(''data'', JObj [(''id'', JNum 1)])]) \<and>
   result (request sample_env ''/items'' no_options) = Inr no_data\<close>
proof -
  note ex = sample_env_def sample_parse_def
  let ?r1 = "\<lparr>resp_status = 204, resp_text = Inr ''not read''\<rparr>"
  let ?r2 = "\<lparr>resp_status = 200, resp_text = Inr []\<rparr>"
  let ?r3 = "\<lparr>resp_status = 500, resp_text = Inr []\<rparr>"
  let ?t = \<open>''{"data":{"id":1}}''\<close>
  let ?r4 = "\<lparr>resp_status = 200, resp_text = Inr ?t\<rparr>"
  let ?d = "JObj [(''data'', JObj [(''id'', JNum 1)])]"
  have 1: "read_response sample_env ?r1 = Inr no_data"
    using response_classification [of ?r1 sample_env] by simp
  have 2: "read_response sample_env ?r2 = Inr no_data"
    using response_classification [of ?r2 sample_env] by (simp add: ok_def)
  have 3: "read_response sample_env ?r3 =
     Inl (ApiErr (ApiError (JStr ''EMPTY_RESPONSE'') (JStr ''Server returned empty response'') 500))"
    using response_classification [of ?r3 sample_env] by (simp add: ok_def)
  have p: "JSON_parse sample_env ?t = Inr ?d" by (simp add: ex request_defs)
  have q: "js_trim ?t \<noteq> []" by (simp add: ex request_defs)
  have 4: "read_response sample_env ?r4 = Inr ?d"
    using response_classification [of ?r4 sample_env ?t ?d] p q by (simp add: ok_def)
  have f: "fst (first_attempt sample_env ''/items'' no_options) = Inr ?r2"
    by (simp add: ex first_attempt_def request_defs)
  have 5: "result (request sample_env ''/items'' no_options) = Inr no_data"
    using response_classification [of ?r2 sample_env _ _ "''/items''" no_options] f 2
    by (simp add: surfaced_def)
  from 1 2 3 4 5 show ?thesis by simp
qed

text \<open>What the handler of lines 115 to 126 throws, by the body of the first response.\<close>

lemma truthy_get_prop: "truthy v \<Longrightarrow> \<exists>w. get_prop v k = Inr w"
  by (cases v) simp_all

lemma throw_ApiError_of_truthy:
  "truthy v \<Longrightarrow> \<exists>c m. throw_ApiError_of v st = ApiErr (ApiError c m st)"
  using truthy_get_prop [of v "''code''"] truthy_get_prop [of v "''message''"]
  by (auto simp add: throw_ApiError_of_def)

lemma truthy_or_else_unauthorized: "truthy (or_else err unauthorized)"
  by (simp add: or_else_def unauthorized_def)

lemma throw_unauthorized:
  "throw_ApiError_of unauthorized st =
     ApiErr (ApiError (JStr ''UNAUTHORIZED'') (JStr ''Unauthorized'') st)"
  by (simp add: throw_ApiError_of_def unauthorized_def)

lemma original_401_error_default:
  "resp_text r = Inl x \<or> resp_text r = Inr [] \<or>
   (resp_text r = Inr text \<and> JSON_parse E text = Inl x) \<Longrightarrow>
   original_401_error E r =
     ApiErr (ApiError (JStr ''UNAUTHORIZED'') (JStr ''Unauthorized'') (resp_status r))"
  by (auto simp add: original_401_error_def Let_def or_else_def throw_unauthorized
      unauthorized_def [symmetric])

lemma original_401_error_status:
  assumes "resp_text r = Inr text" "text \<noteq> []" "JSON_parse E text = Inr d"
    "d \<noteq> JNull" "d \<noteq> JUndefined"
  shows "\<exists>c m. original_401_error E r = ApiErr (ApiError c m (resp_status r))"
proof -
  from assms(4,5) obtain err where e: "get_prop d ''error'' = Inr err"
    by (cases d) simp_all
  from throw_ApiError_of_truthy [OF truthy_or_else_unauthorized, of err "resp_status r"]
  show ?thesis using assms(1-3) e by (simp add: original_401_error_def)
qed

lemma original_401_error_field:
  assumes "resp_text r = Inr text" "text \<noteq> []" "JSON_parse E text = Inr (JObj kvs)"
    "map_of kvs ''error'' = Some (JObj err)"
  shows "original_401_error E r =
     ApiErr (ApiError (case map_of err ''code'' of Some v \<Rightarrow> v | None \<Rightarrow> JUndefined)
               (case map_of err ''message'' of Some v \<Rightarrow> v | None \<Rightarrow> JUndefined)
               (resp_status r))"
  using assms by (simp add: original_401_error_def or_else_def throw_ApiError_of_def)

lemmas original_401_error_cases =
  original_401_error_default original_401_error_status original_401_error_field

text \<open>
  C6. The first response is 401 with the body \<^verbatim>\<open>null\<close> and the refresh fails. The body
  parses, reading \<^verbatim>\<open>data.error\<close> of \<^verbatim>\<open>null\<close> throws inside the handler, and the outer
  handler reports a \<^verbatim>\<open>NETWORK_ERROR\<close> with status 0 in place of the 401.
\<close>

theorem null_body_401_loses_status:
  "result (request null_401_env ''/items'' no_options) =
     Inl (ApiError (JStr ''NETWORK_ERROR'') (JStr null_property_message) 0)"
  by (simp add: null_401_env_def sample_env_def sample_parse_def request_defs)

section \<open>A refresh that yields no token\<close>

lemma resume_no_token:
  assumes "i < length (flows s)" "stored = None \<or> stored = Some []"
  shows "flows (handle401Error_resume i None stored s) ! i = Threw no_token_error \<and>
         clearAuth_calls (handle401Error_resume i None stored s) = clearAuth_calls s + 1 \<and>
         \<not> isRefreshing (handle401Error_resume i None stored s)"
  using assms by (auto simp add: handle401Error_resume_def)

lemma original_401_error_built:
  assumes "resp_text r = Inr text" "text \<noteq> []" "JSON_parse E text = Inr d"
    "d \<noteq> JNull" "d \<noteq> JUndefined"
  shows "original_401_error E r =
     ApiErr (ApiError (field (or_else (field d ''error'') unauthorized) ''code'')
               (field (or_else (field d ''error'') unauthorized) ''message'') (resp_status r))"
  using assms
  by (simp add: original_401_error_def get_prop_field
      throw_ApiError_of_field [OF truthy_or_else_unauthorized])

text \<open>
  C7, as the code has it. When \<^verbatim>\<open>refreshAccessToken()\<close> succeeds and the token read
  afterwards is \<^verbatim>\<open>null\<close> or empty, the refresh counts as failed: \<^verbatim>\<open>clearAuth\<close> is called
  once, the flag is cleared, and \<^verbatim>\<open>handle401Error\<close> throws the plain error
  \<^verbatim>\<open>Error('Failed to get new token after refresh')\<close>. The request that awaited it sends
  nothing more and fails. Its error is \<^verbatim>\<open>UNAUTHORIZED\<close> at status 401 when the body of
  the first response is empty, cannot be read or does not parse; when the body parses to
  a value other than \<^verbatim>\<open>null\<close>, the error takes code and message from the \<^verbatim>\<open>error\<close> field
  of that value (from the \<^verbatim>\<open>UNAUTHORIZED\<close> default without one), at status 401.
\<close>

theorem no_token_is_a_failure:
  "(i < length (flows s) \<and> flows s ! i = Refreshing \<and> (stored = None \<or> stored = Some []) \<longrightarrow>
      flows (step (RefreshSettles i None stored) s) ! i = Threw no_token_error \<and>
      clearAuth_calls (step (RefreshSettles i None stored) s) = clearAuth_calls s + 1 \<and>
      \<not> isRefreshing (step (RefreshSettles i None stored) s)) \<and>
   (fst (first_attempt E endpoint options) = Inr r \<and> resp_status r = 401 \<and>
    awaited401 E = Inl no_token_error \<longrightarrow>
      sent (request E endpoint options) = snd (first_attempt E endpoint options) \<and>
      coordinator_calls (request E endpoint options) = 1 \<and>
      (\<exists>e. result (request E endpoint options) = Inl e) \<and>
      (resp_text r = Inl x \<or> resp_text r = Inr [] \<or>
       (resp_text r = Inr t \<and> JSON_parse E t = Inl x) \<longrightarrow>
         result (request E endpoint options) =
           Inl (ApiError (JStr ''UNAUTHORIZED'') (JStr ''Unauthorized'') 401)) \<and>
      (resp_text r = Inr t \<and> t \<noteq> [] \<and> JSON_parse E t = Inr d \<and>
       d \<noteq> JNull \<and> d \<noteq> JUndefined \<longrightarrow>
         result (request E endpoint options) =
           Inl (ApiError (field (or_else (field d ''error'') unauthorized) ''code'')
                  (field (or_else (field d ''error'') unauthorized) ''message'') 401))) \<and>
   no_token_error = JsError ''Failed to get new token after refresh''"
proof -
  have 1: "i < length (flows s) \<and> flows s ! i = Refreshing \<and> (stored = None \<or> stored = Some []) \<longrightarrow>
      flows (step (RefreshSettles i None stored) s) ! i = Threw no_token_error \<and>
      clearAuth_calls (step (RefreshSettles i None stored) s) = clearAuth_calls s + 1 \<and>
      \<not> isRefreshing (step (RefreshSettles i None stored) s)"
    using resume_no_token [of i s stored] by auto
  have 2: "sent (request E endpoint options) = snd (first_attempt E endpoint options) \<and>
      coordinator_calls (request E endpoint options) = 1 \<and>
      (\<exists>e. result (request E endpoint options) = Inl e) \<and>
      (resp_text r = Inl x \<or> resp_text r = Inr [] \<or>
       (resp_text r = Inr t \<and> JSON_parse E t = Inl x) \<longrightarrow>
         result (request E endpoint options) =
           Inl (ApiError (JStr ''UNAUTHORIZED'') (JStr ''Unauthorized'') 401)) \<and>
      (resp_text r = Inr t \<and> t \<noteq> [] \<and> JSON_parse E t = Inr d \<and>
       d \<noteq> JNull \<and> d \<noteq> JUndefined \<longrightarrow>
         result (request E endpoint options) =
           Inl (ApiError (field (or_else (field d ''error'') unauthorized) ''code'')
                  (field (or_else (field d ''error'') unauthorized) ''message'') 401))"
    if a: "fst (first_attempt E endpoint options) = Inr r" and b: "resp_status r = 401"
      and c: "awaited401 E = Inl no_token_error"
  proof -
    note req = request_refresh_failed [OF a b c]
    have d1: "resp_text r = Inl x \<or> resp_text r = Inr [] \<or>
       (resp_text r = Inr t \<and> JSON_parse E t = Inl x) \<longrightarrow>
         result (request E endpoint options) =
           Inl (ApiError (JStr ''UNAUTHORIZED'') (JStr ''Unauthorized'') 401)"
      using req original_401_error_default [of r x _ E] b by (auto simp add: outer_catch_def)
    have d2: "resp_text r = Inr t \<and> t \<noteq> [] \<and> JSON_parse E t = Inr d \<and>
       d \<noteq> JNull \<and> d \<noteq> JUndefined \<longrightarrow>
         result (request E endpoint options) =
           Inl (ApiError (field (or_else (field d ''error'') unauthorized) ''code'')
                  (field (or_else (field d ''error'') unauthorized) ''message'') 401)"
      using req original_401_error_built [of r _ E d] b by (auto simp add: outer_catch_def)
    from req d1 d2 show ?thesis by simp
  qed
  from 1 2 show ?thesis by (simp add: no_token_error_def)
qed

theorem no_token_is_a_failure_witness:
  "flows (step (RefreshSettles 0 None None) (run [Call] init)) ! 0 = Threw no_token_error \<and>
   clearAuth_calls (step (RefreshSettles 0 None None) (run [Call] init)) = 1 \<and>
   isRefreshing (step (RefreshSettles 0 None None) (run [Call] init)) = False \<and>
   result (request no_token_env ''/items'' no_options) =
     Inl (ApiError (JStr ''UNAUTHORIZED'') (JStr ''Unauthorized'') 401) \<and>
   length (sent (request no_token_env ''/items'' no_options)) = 1 \<and>
   result (request (no_token_env\<lparr>fetch := (\<lambda>n c. Inr expired_response)\<rparr>) ''/items'' no_options) =
     Inl (ApiError (JStr ''TOKEN_EXPIRED'') (JStr ''expired'') 401)"
proof -
  note ex = no_token_env_def sample_env_def sample_parse_def first_attempt_def
    expired_response_def
  let ?r = "\<lparr>resp_status = 401, resp_text = Inr []\<rparr>"
  let ?E = "no_token_env\<lparr>fetch := (\<lambda>n c. Inr expired_response)\<rparr>"
  let ?d = "JObj [(''error'', JObj [(''code'', JStr ''TOKEN_EXPIRED''),
                                    (''message'', JStr ''expired'')])]"
  have a: "0 < length (flows (run [Call] init))" by (simp add: coordinator_defs)
  have b: "flows (run [Call] init) ! 0 = Refreshing" by (simp add: coordinator_defs)
  have c: "clearAuth_calls (run [Call] init) = 0" by (simp add: coordinator_defs)
  have d: "fst (first_attempt no_token_env ''/items'' no_options) = Inr ?r"
    by (simp add: ex request_defs)
  have e: "awaited401 no_token_env = Inl no_token_error" by (simp add: ex)
  have f: "length (snd (first_attempt no_token_env ''/items'' no_options)) = 1"
    by (simp add: ex request_defs)
  from no_token_is_a_failure [of 0 "run [Call] init" None no_token_env "''/items''" no_options ?r]
    a b c d e f
  have 1: "flows (step (RefreshSettles 0 None None) (run [Call] init)) ! 0 = Threw no_token_error \<and>
   clearAuth_calls (step (RefreshSettles 0 None None) (run [Call] init)) = 1 \<and>
   isRefreshing (step (RefreshSettles 0 None None) (run [Call] init)) = False \<and>
   result (request no_token_env ''/items'' no_options) =
     Inl (ApiError (JStr ''UNAUTHORIZED'') (JStr ''Unauthorized'') 401) \<and>
   length (sent (request no_token_env ''/items'' no_options)) = 1"
    by simp
  have d': "fst (first_attempt ?E ''/items'' no_options) = Inr expired_response"
    by (simp add: ex request_defs)
  have e': "awaited401 ?E = Inl no_token_error" by (simp add: ex)
  have s': "resp_status expired_response = 401" by (simp add: ex)
  have t': \<open>resp_text expired_response =
      Inr ''{"error":{"code":"TOKEN_EXPIRED","message":"expired"}}''\<close>
    by (simp add: ex)
  have p': \<open>JSON_parse ?E ''{"error":{"code":"TOKEN_EXPIRED","message":"expired"}}'' = Inr ?d\<close>
    by (simp add: ex)
  from no_token_is_a_failure
         [where E = ?E and endpoint = "''/items''" and options = no_options
            and r = expired_response and d = ?d
            and t = \<open>''{"error":{"code":"TOKEN_EXPIRED","message":"expired"}}''\<close>]
    d' e' s' t' p'
  have 2: "result (request ?E ''/items'' no_options) =
     Inl (ApiError (JStr ''TOKEN_EXPIRED'') (JStr ''expired'') 401)"
    by (simp add: field_def or_else_def)
  from 1 2 show ?thesis by simp
qed

text \<open>
  C7, as stated, fails: with no token after a successful refresh the call throws an
  error without a code, and the request reports \<^verbatim>\<open>UNAUTHORIZED\<close>; the code
  \<^verbatim>\<open>REFRESH_NO_TOKEN\<close> appears nowhere.
\<close>

theorem no_token_counterexample:
  "flows (run [Call, RefreshSettles 0 None None] init) ! 0 =
     Threw (JsError ''Failed to get new token after refresh'') \<and>
   result (request no_token_env ''/items'' no_options) =
     Inl (ApiError (JStr ''UNAUTHORIZED'') (JStr ''Unauthorized'') 401) \<and>
   JStr ''UNAUTHORIZED'' \<noteq> JStr ''REFRESH_NO_TOKEN''"
  by (simp add: coordinator_defs no_token_env_def sample_env_def sample_parse_def request_defs)

section \<open>The verbs and the request body\<close>

lemma makeRequest_sent:
  "makeRequest E s url options tok = (r, s') \<Longrightarrow>
   s' = s \<or> (\<exists>c. s' = s @ [c] \<and> fetch_body c = body options \<and>
                 fetch_method c = http_method options \<and> fetch_url c = url \<and>
                 makeRequest_headers options tok = Inr (fetch_headers c) \<and>
                 r = fetch E (length s) c)"
  by (auto simp add: makeRequest_def Let_def split: sum.splits)

lemma makeRequest_headers_fields [simp]:
  "makeRequest_headers (opts\<lparr>http_method := m\<rparr>) tok = makeRequest_headers opts tok"
  "makeRequest_headers (opts\<lparr>body := b\<rparr>) tok = makeRequest_headers opts tok"
  by (simp_all add: makeRequest_headers_def)

lemma request_sent_fields:
  "c \<in> set (sent (request E endpoint options)) \<Longrightarrow>
   fetch_body c = body options \<and> fetch_method c = http_method options \<and>
   fetch_url c = baseURL E @ endpoint"
proof -
  assume c: "c \<in> set (sent (request E endpoint options))"
  let ?P = "\<lambda>c. fetch_body c = body options \<and> fetch_method c = http_method options \<and>
      fetch_url c = baseURL E @ endpoint"
  obtain r1 s1 where m1: "makeRequest E [] (baseURL E @ endpoint) options
      (case accessToken E of Some t \<Rightarrow> t | None \<Rightarrow> []) = (r1, s1)"
    by (cases "makeRequest E [] (baseURL E @ endpoint) options
      (case accessToken E of Some t \<Rightarrow> t | None \<Rightarrow> [])") auto
  from makeRequest_sent [OF m1] have b1: "\<forall>c\<in>set s1. ?P c" by auto
  have b2: "\<forall>c\<in>set s2. ?P c"
    if "makeRequest E s1 (baseURL E @ endpoint) options tok = (r2, s2)" for tok r2 s2
    using makeRequest_sent [OF that] b1 by auto
  have "\<forall>c\<in>set (sent (request E endpoint options)). ?P c"
    using m1 b1 b2
    by (auto simp add: request_def request_body_def Let_def split: sum.splits prod.splits if_splits)
  with c show ?thesis by blast
qed

lemma request_first_call:
  assumes "makeRequest_headers options (first_token E) = Inr hs"
  shows "sent (request E endpoint options) \<noteq> [] \<and>
         hd (sent (request E endpoint options)) =
           \<lparr>fetch_url = baseURL E @ endpoint, fetch_method = http_method options,
            fetch_headers = hs, fetch_body = body options\<rparr>"
proof -
  let ?c = "\<lparr>fetch_url = baseURL E @ endpoint, fetch_method = http_method options,
            fetch_headers = hs, fetch_body = body options\<rparr>"
  have f: "first_attempt E endpoint options = (fetch E 0 ?c, [?c])"
    using assms by (simp add: first_attempt_def makeRequest_def first_token_def Let_def)
  have r: "snd (retry_attempt E endpoint options t) \<noteq> [] \<and>
      hd (snd (retry_attempt E endpoint options t)) = ?c" for t
    by (simp add: retry_attempt_def f makeRequest_def Let_def split: sum.splits)
  show ?thesis
  proof (cases "fetch E 0 ?c")
    case (Inl e)
    with f request_first_failed [of E endpoint options e] show ?thesis by simp
  next
    case (Inr r1)
    with f have a: "fst (first_attempt E endpoint options) = Inr r1" by simp
    show ?thesis
    proof (cases "resp_status r1 = 401")
      case False
      from request_not_401 [OF a False] f show ?thesis by simp
    next
      case True
      show ?thesis
      proof (cases "awaited401 E")
        case (Inl x)
        from request_refresh_failed [OF a True Inl] f show ?thesis by simp
      next
        case tok: (Inr newToken)
        show ?thesis
        proof (cases "newToken = []")
          case True
          with tok request_empty_token [OF a \<open>resp_status r1 = 401\<close>] f show ?thesis by simp
        next
          case False
          show ?thesis
          proof (cases "fst (retry_attempt E endpoint options newToken)")
            case (Inl e)
            from request_retry_failed [OF a True tok False Inl] r [of newToken]
            show ?thesis by simp
          next
            case r': (Inr r')
            from request_retried [OF a True tok False r'] r [of newToken]
            show ?thesis by simp
          qed
        qed
      qed
    qed
  qed
qed

text \<open>
  C10. Whenever the headers build, \<^verbatim>\<open>post\<close>, \<^verbatim>\<open>put\<close> and \<^verbatim>\<open>patch\<close> each send a
  request: its first call goes to the endpoint with the verb's method, the merged
  headers, no body when the body argument is falsy, and the JSON text of the argument
  when it is truthy, whatever body the options held. Every call of the request (the
  retry too) carries that method and that body. \<^verbatim>\<open>undefined\<close>, \<^verbatim>\<open>null\<close>, the empty
  string, 0 and \<^verbatim>\<open>false\<close> are falsy, so none of them can be sent as a body.
\<close>

theorem falsy_body_is_dropped:
  "(makeRequest_headers (the_options options) (first_token E) = Inr hs \<longrightarrow>
      sent (post E endpoint b options) \<noteq> [] \<and>
      hd (sent (post E endpoint b options)) =
        \<lparr>fetch_url = baseURL E @ endpoint, fetch_method = Some ''POST'', fetch_headers = hs,
         fetch_body = (if truthy b then Some (JSON_stringify E b) else None)\<rparr> \<and>
      sent (put E endpoint b options) \<noteq> [] \<and>
      hd (sent (put E endpoint b options)) =
        \<lparr>fetch_url = baseURL E @ endpoint, fetch_method = Some ''PUT'', fetch_headers = hs,
         fetch_body = (if truthy b then Some (JSON_stringify E b) else None)\<rparr> \<and>
      sent (patch E endpoint b options) \<noteq> [] \<and>
      hd (sent (patch E endpoint b options)) =
        \<lparr>fetch_url = baseURL E @ endpoint, fetch_method = Some ''PATCH'', fetch_headers = hs,
         fetch_body = (if truthy b then Some (JSON_stringify E b) else None)\<rparr>) \<and>
   (\<forall>c \<in> set (sent (post E endpoint b options)).
      fetch_method c = Some ''POST'' \<and>
      fetch_body c = (if truthy b then Some (JSON_stringify E b) else None)) \<and>
   (\<forall>c \<in> set (sent (put E endpoint b options)).
      fetch_method c = Some ''PUT'' \<and>
      fetch_body c = (if truthy b then Some (JSON_stringify E b) else None)) \<and>
   (\<forall>c \<in> set (sent (patch E endpoint b options)).
      fetch_method c = Some ''PATCH'' \<and>
      fetch_body c = (if truthy b then Some (JSON_stringify E b) else None)) \<and>
   (b \<in> {JUndefined, JNull, JStr [], JNum 0, JBool False} \<longrightarrow> \<not> truthy b)"
proof -
  have 1: "sent (post E endpoint b options) \<noteq> [] \<and>
      hd (sent (post E endpoint b options)) =
        \<lparr>fetch_url = baseURL E @ endpoint, fetch_method = Some ''POST'', fetch_headers = hs,
         fetch_body = (if truthy b then Some (JSON_stringify E b) else None)\<rparr> \<and>
      sent (put E endpoint b options) \<noteq> [] \<and>
      hd (sent (put E endpoint b options)) =
        \<lparr>fetch_url = baseURL E @ endpoint, fetch_method = Some ''PUT'', fetch_headers = hs,
         fetch_body = (if truthy b then Some (JSON_stringify E b) else None)\<rparr> \<and>
      sent (patch E endpoint b options) \<noteq> [] \<and>
      hd (sent (patch E endpoint b options)) =
        \<lparr>fetch_url = baseURL E @ endpoint, fetch_method = Some ''PATCH'', fetch_headers = hs,
         fetch_body = (if truthy b then Some (JSON_stringify E b) else None)\<rparr>"
    if h: "makeRequest_headers (the_options options) (first_token E) = Inr hs"
  proof -
    have m: "makeRequest_headers ((the_options options)\<lparr>http_method := Some v, body := w\<rparr>)
        (first_token E) = Inr hs" for v w
      using h by simp
    let ?w = "if truthy b then Some (JSON_stringify E b) else None"
    from request_first_call [OF m [where v = "''POST''" and w = ?w], of endpoint]
      request_first_call [OF m [where v = "''PUT''" and w = ?w], of endpoint]
      request_first_call [OF m [where v = "''PATCH''" and w = ?w], of endpoint]
    show ?thesis
      by (simp add: post_def put_def patch_def the_options_def)
  qed
  have 2: "fetch_method c = Some ''POST'' \<and>
      fetch_body c = (if truthy b then Some (JSON_stringify E b) else None)"
    if "c \<in> set (sent (post E endpoint b options))" for c
    using that by (auto simp add: post_def dest!: request_sent_fields)
  have 3: "fetch_method c = Some ''PUT'' \<and>
      fetch_body c = (if truthy b then Some (JSON_stringify E b) else None)"
    if "c \<in> set (sent (put E endpoint b options))" for c
    using that by (auto simp add: put_def dest!: request_sent_fields)
  have 4: "fetch_method c = Some ''PATCH'' \<and>
      fetch_body c = (if truthy b then Some (JSON_stringify E b) else None)"
    if "c \<in> set (sent (patch E endpoint b options))" for c
    using that by (auto simp add: patch_def dest!: request_sent_fields)
  have 5: "b \<in> {JUndefined, JNull, JStr [], JNum 0, JBool False} \<longrightarrow> \<not> truthy b"
    by auto
  from 1 2 3 4 5 show ?thesis by blast
qed

theorem falsy_body_is_dropped_witness:
  "sent (post sample_env ''/items'' (JNum 0) None) =
     [\<lparr>fetch_url = ''/api/v1/items'', fetch_method = Some ''POST'',
       fetch_headers = [(''Content-Type'', ''application/json''), (''Authorization'', ''Bearer t1'')],
       fetch_body = None\<rparr>] \<and>
   sent (put sample_env ''/items'' (JArr [JNum 1]) None) =
     [\<lparr>fetch_url = ''/api/v1/items'', fetch_method = Some ''PUT'',
       fetch_headers = [(''Content-Type'', ''application/json''), (''Authorization'', ''Bearer t1'')],
       fetch_body = Some ''[1]''\<rparr>] \<and>
   sent (patch sample_env ''/items'' (JBool False) None) =
     [\<lparr>fetch_url = ''/api/v1/items'', fetch_method = Some ''PATCH'',
       fetch_headers = [(''Content-Type'', ''application/json''), (''Authorization'', ''Bearer t1'')],
       fetch_body = None\<rparr>] \<and>
   map fetch_body (sent (patch rejecting_env ''/items'' (JArr [JNum 1]) None)) =
     [Some ''[1]'', Some ''[1]''] \<and>
   map fetch_method (sent (patch rejecting_env ''/items'' (JArr [JNum 1]) None)) =
     [Some ''PATCH'', Some ''PATCH'']"
proof -
  note ex = sample_env_def sample_parse_def sample_stringify_def rejecting_env_def
    expired_response_def the_options_def first_token_def
  let ?H = "[(''Content-Type'', ''application/json''), (''Authorization'', ''Bearer t1'')]"
  have single: "xs = [hd xs]" if "length xs = 1" for xs :: "fetch_call list"
    using that by (cases xs) auto
  have h: "makeRequest_headers (the_options None) (first_token sample_env) = Inr ?H"
    by (simp add: ex request_defs)
  have u: "baseURL sample_env @ ''/items'' = ''/api/v1/items''" by (simp add: ex)
  have s: "JSON_stringify sample_env (JArr [JNum 1]) = ''[1]''" by (simp add: ex)
  have s': "JSON_stringify rejecting_env (JArr [JNum 1]) = ''[1]''" by (simp add: ex)
  have l1: "length (sent (post sample_env ''/items'' (JNum 0) None)) = 1"
    by (simp add: ex request_defs)
  have l2: "length (sent (put sample_env ''/items'' (JArr [JNum 1]) None)) = 1"
    by (simp add: ex request_defs)
  have l3: "length (sent (patch sample_env ''/items'' (JBool False) None)) = 1"
    by (simp add: ex request_defs)
  have l4: "length (sent (patch rejecting_env ''/items'' (JArr [JNum 1]) None)) = 2"
    by (simp add: ex request_defs Let_def)
  from falsy_body_is_dropped [of None sample_env ?H "''/items''" "JNum 0"] h u
  have 1: "hd (sent (post sample_env ''/items'' (JNum 0) None)) =
      \<lparr>fetch_url = ''/api/v1/items'', fetch_method = Some ''POST'', fetch_headers = ?H,
       fetch_body = None\<rparr>"
    by simp
  from falsy_body_is_dropped [of None sample_env ?H "''/items''" "JArr [JNum 1]"] h u s
  have 2: "hd (sent (put sample_env ''/items'' (JArr [JNum 1]) None)) =
      \<lparr>fetch_url = ''/api/v1/items'', fetch_method = Some ''PUT'', fetch_headers = ?H,
       fetch_body = Some ''[1]''\<rparr>"
    by simp
  from falsy_body_is_dropped [of None sample_env ?H "''/items''" "JBool False"] h u
  have 3: "hd (sent (patch sample_env ''/items'' (JBool False) None)) =
      \<lparr>fetch_url = ''/api/v1/items'', fetch_method = Some ''PATCH'', fetch_headers = ?H,
       fetch_body = None\<rparr>"
    by simp
  from falsy_body_is_dropped [of None rejecting_env _ "''/items''" "JArr [JNum 1]"] s'
  have 4: "\<forall>c\<in>set (sent (patch rejecting_env ''/items'' (JArr [JNum 1]) None)).
      fetch_method c = Some ''PATCH'' \<and> fetch_body c = Some ''[1]''"
    by simp
  from l4 obtain c1 c2 where
    two: "sent (patch rejecting_env ''/items'' (JArr [JNum 1]) None) = [c1, c2]"
    by (cases "sent (patch rejecting_env ''/items'' (JArr [JNum 1]) None)";
        cases "tl (sent (patch rejecting_env ''/items'' (JArr [JNum 1]) None))") auto
  from 4 two have 5:
    "map fetch_body (sent (patch rejecting_env ''/items'' (JArr [JNum 1]) None)) =
       [Some ''[1]'', Some ''[1]''] \<and>
     map fetch_method (sent (patch rejecting_env ''/items'' (JArr [JNum 1]) None)) =
       [Some ''PATCH'', Some ''PATCH'']"
    by simp
  from single [OF l1] single [OF l2] single [OF l3] 1 2 3 5 show ?thesis by simp
qed

end
